theory Spec2Isabelle
  imports Main
begin

section \<open>OpenGL capability detection (\<^verbatim>\<open>ui/gl/gl_detection.cpp\<close>)\<close>

text \<open>
  A shallow embedding of \<^verbatim>\<open>Ui::GL\<close> as it is compiled on Windows (\<^verbatim>\<open>Q_OS_WIN\<close>
  defined, so that the ANGLE functions and the EGL extension listing are part of it).
  Files, environment variables, the process-wide globals and the function-local statics
  are fields of one state record that every function takes and returns. What the toolkit
  answers during a call (does the window handle exist, what does the context report) is
  an argument of the model.
\<close>

subsection \<open>Data\<close>

text \<open>
  \<^verbatim>\<open>enum class ANGLE\<close> is declared in the header; the source names five enumerators.
  \<open>ANGLE_Other\<close> stands for a value of the enumeration type that is none of them (C++
  admits such a value through a cast): it is what the \<^verbatim>\<open>default:\<close> branch of the switch in
  \<^verbatim>\<open>ChangeANGLE\<close> is for.
\<close>

datatype ANGLE = Auto | D3D9 | D3D11 | D3D11on12 | OpenGL | ANGLE_Other

text \<open>
  \<^verbatim>\<open>struct Capabilities\<close>; \<^verbatim>\<open>return {}\<close> is the value with both members false.
\<close>

record Capabilities =
  supported :: bool
  transparency :: bool

definition no_capabilities :: Capabilities where
  "no_capabilities = \<lparr>supported = False, transparency = False\<rparr>"

text \<open>The ways a call does not return to its caller.\<close>

datatype fault =
  ProcessTerminated
  | ExceptionPropagated
  | AssertionFailed string
  | Unexpected string

text \<open>
  Every function-local \<^verbatim>\<open>static\<close> of the file: one per \<^verbatim>\<open>LOG_ONCE\<close> call site, in source
  order, and the two named ones.
\<close>

datatype static_site =
  Once_ForceDisabled
  | BugListInited
  | Once_NotSupportedForWindow
  | Once_NoContext
  | Once_NPOT
  | Once_Framebuffers
  | Once_Shaders
  | Once_Link
  | Once_ProfileES
  | Once_ProfileNone
  | Once_ProfileCore
  | Once_ProfileCompatibility
  | extensionsLogged
  | Once_Created
  | Once_CreatedWithoutAlpha

text \<open>
  The state. \<open>files\<close> is the durable store (path to content); \<open>can_write\<close>,
  \<open>can_read\<close> and \<open>can_remove\<close> say for which paths \<^verbatim>\<open>QFile::open(WriteOnly)\<close>,
  \<^verbatim>\<open>QFile::open(ReadOnly)\<close> and \<^verbatim>\<open>QFile::remove\<close> succeed. The remaining fields
  live in the process: its environment variables, the globals \<^verbatim>\<open>ForceDisabled\<close> and
  \<^verbatim>\<open>ResolvedANGLE\<close>, the statics already initialised, and the lines given to \<^verbatim>\<open>LOG\<close>.
\<close>

record world =
  files :: "string \<rightharpoonup> string"
  can_write :: "string \<Rightarrow> bool"
  can_read :: "string \<Rightarrow> bool"
  can_remove :: "string \<Rightarrow> bool"
  environment :: "string \<rightharpoonup> string"
  ForceDisabled :: bool
  ResolvedANGLE :: ANGLE
  statics :: "static_site set"
  log_lines :: "string list"

text \<open>\<^verbatim>\<open>Integration::Instance()\<close>: the two paths the host application supplies.\<close>

record integration =
  openglCheckFilePath :: string
  angleBackendFilePath :: string

text \<open>
  A new process over the same durable store: the globals have their initialisers
  (\<^verbatim>\<open>ForceDisabled\<close> false, \<^verbatim>\<open>ResolvedANGLE = ANGLE::Auto\<close>), no static is initialised,
  and the environment is the one the process is started with.
\<close>

definition fresh_process :: "(string \<rightharpoonup> string) \<Rightarrow> world \<Rightarrow> world" where
  "fresh_process env w =
     w\<lparr>environment := env, ForceDisabled := False, ResolvedANGLE := Auto, statics := {}\<rparr>"

subsection \<open>Files, environment, logging\<close>

text \<open>
  \<^verbatim>\<open>QFile::open(WriteOnly)\<close> creates or truncates the file; \<^verbatim>\<open>write\<close> then stores the
  bytes. \<open>None\<close> is a failed open.
\<close>

definition open_WriteOnly :: "string \<Rightarrow> world \<Rightarrow> world option" where
  "open_WriteOnly path w =
     (if can_write w path then Some (w\<lparr>files := (files w)(path \<mapsto> [])\<rparr>) else None)"

definition write_bytes :: "string \<Rightarrow> string \<Rightarrow> world \<Rightarrow> world" where
  "write_bytes path bytes w =
     w\<lparr>files := (files w)(path \<mapsto> (case files w path of None \<Rightarrow> bytes | Some old \<Rightarrow> old @ bytes))\<rparr>"

text \<open>\<^verbatim>\<open>QFile::open(ReadOnly)\<close>: the content, or \<open>None\<close> when the file cannot be opened.\<close>

definition open_ReadOnly :: "string \<Rightarrow> world \<Rightarrow> string option" where
  "open_ReadOnly path w = (if can_read w path then files w path else None)"

definition QFile_exists :: "string \<Rightarrow> world \<Rightarrow> bool" where
  "QFile_exists path w = (files w path \<noteq> None)"

definition QFile_remove :: "string \<Rightarrow> world \<Rightarrow> world" where
  "QFile_remove path w =
     (if files w path \<noteq> None \<and> can_remove w path
      then w\<lparr>files := (files w)(path := None)\<rparr> else w)"

definition qputenv :: "string \<Rightarrow> string \<Rightarrow> world \<Rightarrow> world" where
  "qputenv name val w = w\<lparr>environment := (environment w)(name \<mapsto> val)\<rparr>"

definition qunsetenv :: "string \<Rightarrow> world \<Rightarrow> world" where
  "qunsetenv name w = w\<lparr>environment := (environment w)(name := None)\<rparr>"

definition LOG :: "string \<Rightarrow> world \<Rightarrow> world" where
  "LOG x w = w\<lparr>log_lines := log_lines w @ [x]\<rparr>"

text \<open>
  \<^verbatim>\<open>#define LOG_ONCE(x) static auto logged = [&] { LOG(x); return true; }();\<close>
  The static is initialised the first time control passes its declaration.
\<close>

definition LOG_ONCE :: "static_site \<Rightarrow> string \<Rightarrow> world \<Rightarrow> world" where
  "LOG_ONCE site x w =
     (if site \<in> statics w then w else LOG x (w\<lparr>statics := insert site (statics w)\<rparr>))"

subsection \<open>The crash check\<close>

definition CrashCheckStart :: "integration \<Rightarrow> world \<Rightarrow> world" where
  "CrashCheckStart app w =
     (case open_WriteOnly (openglCheckFilePath app) w of
        Some w' \<Rightarrow> write_bytes (openglCheckFilePath app) ''1'' w'
      | None \<Rightarrow> w)"

definition LastCrashCheckFailed :: "integration \<Rightarrow> world \<Rightarrow> bool" where
  "LastCrashCheckFailed app w = QFile_exists (openglCheckFilePath app) w"

definition CrashCheckFinish :: "integration \<Rightarrow> world \<Rightarrow> world" where
  "CrashCheckFinish app w = QFile_remove (openglCheckFilePath app) w"

definition ForceDisable :: "bool \<Rightarrow> world \<Rightarrow> world" where
  "ForceDisable disable w = w\<lparr>ForceDisabled := disable\<rparr>"

subsection \<open>Byte arrays and strings\<close>

text \<open>\<^verbatim>\<open>QByteArray::startsWith(const char *)\<close>.\<close>

definition startsWith :: "string \<Rightarrow> string \<Rightarrow> bool" where
  "startsWith bytes p = (take (length p) bytes = p)"

text \<open>\<^verbatim>\<open>QByteArray::split(char)\<close>: an empty array gives one empty part.\<close>

fun QByteArray_split :: "char \<Rightarrow> string \<Rightarrow> string list" where
  "QByteArray_split sep [] = [[]]"
| "QByteArray_split sep (c # cs) =
     (if c = sep then [] # QByteArray_split sep cs
      else (case QByteArray_split sep cs of
              [] \<Rightarrow> [[c]]
            | part # parts \<Rightarrow> (c # part) # parts))"

text \<open>\<^verbatim>\<open>QStringList::join(const QString &)\<close>.\<close>

fun QStringList_join :: "string \<Rightarrow> string list \<Rightarrow> string" where
  "QStringList_join sep [] = []"
| "QStringList_join sep [x] = x"
| "QStringList_join sep (x # y # ys) = x @ sep @ QStringList_join sep (y # ys)"

text \<open>\<^verbatim>\<open>QString::arg(int)\<close>: the number in decimal.\<close>

fun decimal_nat :: "nat \<Rightarrow> string" where
  "decimal_nat n =
     (if n < 10 then [''0123456789'' ! n]
      else decimal_nat (n div 10) @ [''0123456789'' ! (n mod 10)])"

definition decimal :: "int \<Rightarrow> string" where
  "decimal i = (if i < 0 then CHR ''-'' # decimal_nat (nat (- i)) else decimal_nat (nat i))"

subsection \<open>The ANGLE backend preference\<close>

definition ANGLE_PLATFORM :: string where
  "ANGLE_PLATFORM = ''DESKTOP_APP_QT_ANGLE_PLATFORM''"

text \<open>The lambda \<^verbatim>\<open>check\<close> of \<^verbatim>\<open>ConfigureANGLE\<close>, with the captured \<^verbatim>\<open>bytes\<close> as an argument.\<close>

definition ConfigureANGLE_check :: "string \<Rightarrow> string \<Rightarrow> ANGLE \<Rightarrow> world \<Rightarrow> world" where
  "ConfigureANGLE_check bytes backend angle w =
     (if startsWith bytes backend
      then qputenv ANGLE_PLATFORM backend (w\<lparr>ResolvedANGLE := angle\<rparr>)
      else w)"

text \<open>
  \<^verbatim>\<open>f.read(32)\<close> is at most the first 32 bytes of the file; \<^verbatim>\<open>QString::fromUtf8\<close> of
  the bytes is the text that is logged.
\<close>

definition ConfigureANGLE :: "integration \<Rightarrow> world \<Rightarrow> world" where
  "ConfigureANGLE app w =
     (let w0 = qunsetenv ANGLE_PLATFORM w;
          path = angleBackendFilePath app
      in if path = [] then w0
         else (case open_ReadOnly path w0 of
                 None \<Rightarrow> w0
               | Some content \<Rightarrow>
                   (let bytes = take 32 content;
                        w1 = ConfigureANGLE_check bytes ''gl'' OpenGL w0;
                        w2 = ConfigureANGLE_check bytes ''d3d9'' D3D9 w1;
                        w3 = ConfigureANGLE_check bytes ''d3d11'' D3D11 w2;
                        w4 = ConfigureANGLE_check bytes ''d3d11on12'' D3D11on12 w3
                    in if ResolvedANGLE w4 = Auto
                       then LOG (''ANGLE Warning: Unknown backend: '' @ bytes) w4
                       else w4)))"

text \<open>The lambda \<^verbatim>\<open>write\<close> of \<^verbatim>\<open>ChangeANGLE\<close>, with the captured \<^verbatim>\<open>path\<close> as an argument.\<close>

definition ChangeANGLE_write :: "string \<Rightarrow> string \<Rightarrow> world \<Rightarrow> world" where
  "ChangeANGLE_write path backend w =
     (case open_WriteOnly path w of
        None \<Rightarrow> LOG (''ANGLE Warning: Could not write to '' @ path @ ''.'') w
      | Some w' \<Rightarrow> write_bytes path backend w')"

fun ChangeANGLE :: "integration \<Rightarrow> ANGLE \<Rightarrow> world \<Rightarrow> (fault + unit) \<times> world" where
  "ChangeANGLE app Auto w = (Inr (), QFile_remove (angleBackendFilePath app) w)"
| "ChangeANGLE app D3D9 w = (Inr (), ChangeANGLE_write (angleBackendFilePath app) ''d3d9'' w)"
| "ChangeANGLE app D3D11 w = (Inr (), ChangeANGLE_write (angleBackendFilePath app) ''d3d11'' w)"
| "ChangeANGLE app D3D11on12 w =
     (Inr (), ChangeANGLE_write (angleBackendFilePath app) ''d3d11on12'' w)"
| "ChangeANGLE app OpenGL w = (Inr (), ChangeANGLE_write (angleBackendFilePath app) ''gl'' w)"
| "ChangeANGLE app ANGLE_Other w = (Inl (Unexpected ''ANGLE backend value.''), w)"

definition CurrentANGLE :: "world \<Rightarrow> ANGLE" where
  "CurrentANGLE w = ResolvedANGLE w"

subsection \<open>What the toolkit answers\<close>

datatype OpenGLContextProfile = NoProfile | CoreProfile | CompatibilityProfile

datatype RenderableType = DefaultRenderableType | Renderable_OpenGL | OpenGLES | OpenVG

text \<open>\<^verbatim>\<open>QSurfaceFormat\<close>: the members the function reads or sets.\<close>

record QSurfaceFormat =
  alphaBufferSize :: int
  profile :: OpenGLContextProfile
  renderableType :: RenderableType
  majorVersion :: int

text \<open>
  A default-constructed \<^verbatim>\<open>QSurfaceFormat\<close>: version 2.0, no profile, default renderable
  type, and -1 for every buffer size.
\<close>

definition default_QSurfaceFormat :: QSurfaceFormat where
  "default_QSurfaceFormat =
     \<lparr>alphaBufferSize = - 1, profile = NoProfile,
      renderableType = DefaultRenderableType, majorVersion = 2\<rparr>"

text \<open>
  The widget argument (\<open>None\<close> is \<^verbatim>\<open>nullptr\<close>): whether its window has a handle,
  whether it has one after \<^verbatim>\<open>createWinId()\<close>, and what that handle answers.
\<close>

record QWidget =
  windowHandle :: bool
  windowHandle_created :: bool
  supportsOpenGL :: bool
  windowFormat :: QSurfaceFormat

definition createWinId :: "QWidget \<Rightarrow> QWidget" where
  "createWinId widget = widget\<lparr>windowHandle := windowHandle_created widget\<rparr>"

text \<open>
  The context of the tester widget and what it answers: \<^verbatim>\<open>isValid()\<close>, the three
  \<^verbatim>\<open>hasOpenGLFeature\<close> queries, \<^verbatim>\<open>program.isLinked()\<close> after \<^verbatim>\<open>LinkProgram\<close> of the test
  shaders, \<^verbatim>\<open>format()\<close>, the three \<^verbatim>\<open>glGetString\<close> results (\<open>None\<close> is \<^verbatim>\<open>nullptr\<close>),
  \<^verbatim>\<open>extensions()\<close> in iteration order, the EGL display found for the context (\<open>False\<close> is
  a null display) and the result of \<^verbatim>\<open>eglQueryString\<close> on it.
\<close>

record QOpenGLContext =
  isValid :: bool
  hasNPOTTextures :: bool
  hasFramebuffers :: bool
  hasShaders :: bool
  isLinked :: bool
  format :: QSurfaceFormat
  GL_RENDERER :: "string option"
  GL_VENDOR :: "string option"
  GL_VERSION :: "string option"
  extensions :: "string list"
  egldisplay :: bool
  eglQueryString :: "string option"

text \<open>
  \<^verbatim>\<open>tester.grabFramebuffer()\<close> forces the context to initialise. The call returns, and
  \<^verbatim>\<open>tester.context()\<close> is then a context or \<^verbatim>\<open>nullptr\<close>; or the driver ends the process
  inside it; or, as any C++ call that is not \<^verbatim>\<open>noexcept\<close>, it leaves by an exception.
\<close>

datatype grab_outcome =
  GrabReturns "QOpenGLContext option"
  | GrabTerminates
  | GrabThrows

record toolkit =
  bug_list_exists :: bool
  grabFramebuffer :: "QSurfaceFormat \<Rightarrow> grab_outcome"
  platformNativeInterface :: bool

subsection \<open>EGL extensions\<close>

text \<open>\<^verbatim>\<open>QByteArray(const char *)\<close> of a null pointer is the empty array.\<close>

definition EGLExtensions :: "toolkit \<Rightarrow> QOpenGLContext \<Rightarrow> fault + string list" where
  "EGLExtensions tk ctxt =
     (if \<not> platformNativeInterface tk then Inl (AssertionFailed ''native != nullptr'')
      else if egldisplay ctxt
      then Inr (QByteArray_split CHR '' ''
                  (case eglQueryString ctxt of None \<Rightarrow> [] | Some s \<Rightarrow> s))
      else Inr [])"

subsection \<open>CheckCapabilities\<close>

text \<open>The initialiser of the static \<^verbatim>\<open>BugListInited\<close> (lines 53 to 60).\<close>

definition init_BugListInited :: "toolkit \<Rightarrow> world \<Rightarrow> world" where
  "init_BugListInited tk w =
     (if BugListInited \<in> statics w then w
      else (let w' = w\<lparr>statics := insert BugListInited (statics w)\<rparr>
            in if \<not> bug_list_exists tk then w'
               else qputenv ''QT_OPENGL_BUGLIST'' '':/misc/gpu_driver_bug_list.json''
                      (LOG ''OpenGL: Using custom 'gpu_driver_bug_list.json'.'' w')))"

definition or_nullptr :: "string option \<Rightarrow> string" where
  "or_nullptr s = (case s of None \<Rightarrow> ''[nullptr]'' | Some x \<Rightarrow> x)"

text \<open>
  The initialiser of the static \<^verbatim>\<open>extensionsLogged\<close> (lines 146 to 171). The static counts
  as initialised once the lambda has returned; a failed assertion in \<^verbatim>\<open>EGLExtensions\<close>
  ends the process before that.
\<close>

definition init_extensionsLogged ::
  "toolkit \<Rightarrow> QOpenGLContext \<Rightarrow> world \<Rightarrow> (fault + unit) \<times> world" where
  "init_extensionsLogged tk ctxt w =
     (if extensionsLogged \<in> statics w then (Inr (), w)
      else (let w1 = LOG (''OpenGL Renderer: '' @ or_nullptr (GL_RENDERER ctxt)) w;
                w2 = LOG (''OpenGL Vendor: '' @ or_nullptr (GL_VENDOR ctxt)) w1;
                w3 = LOG (''OpenGL Version: '' @ or_nullptr (GL_VERSION ctxt)) w2;
                w4 = LOG (''OpenGL Extensions: ''
                            @ QStringList_join '', '' (extensions ctxt)) w3
            in case EGLExtensions tk ctxt of
                 Inl f \<Rightarrow> (Inl f, w4)
               | Inr egllist \<Rightarrow>
                   (Inr (),
                    (LOG (''EGL Extensions: '' @ QStringList_join '', '' egllist) w4)
                      \<lparr>statics := insert extensionsLogged (statics w4)\<rparr>)))"

text \<open>
  Lines 146 to 185: the one-time listing, then the result. Both arguments of the version
  string are \<^verbatim>\<open>supported.majorVersion()\<close>, as in the source.
\<close>

definition CheckCapabilities_result ::
  "toolkit \<Rightarrow> QOpenGLContext \<Rightarrow> world \<Rightarrow> (fault + Capabilities) \<times> world" where
  "CheckCapabilities_result tk ctxt w =
     (case init_extensionsLogged tk ctxt w of
        (Inl f, w') \<Rightarrow> (Inl f, w')
      | (Inr _, w') \<Rightarrow>
          (let version = decimal (majorVersion (format ctxt)) @ ''.''
                           @ decimal (majorVersion (format ctxt))
           in if alphaBufferSize (format ctxt) \<ge> 8
              then (Inr \<lparr>supported = True, transparency = True\<rparr>,
                    LOG_ONCE Once_Created
                      (''OpenGL: QOpenGLContext created, version: '' @ version @ ''.'') w')
              else (Inr \<lparr>supported = True, transparency = False\<rparr>,
                    LOG_ONCE Once_CreatedWithoutAlpha
                      (''OpenGL: QOpenGLContext without alpha created, version: '' @ version)
                      w')))"

text \<open>Lines 128 to 144: the switch on the profile of the context's format.\<close>

definition CheckCapabilities_profile ::
  "toolkit \<Rightarrow> QOpenGLContext \<Rightarrow> world \<Rightarrow> (fault + Capabilities) \<times> world" where
  "CheckCapabilities_profile tk ctxt w =
     (case profile (format ctxt) of
        NoProfile \<Rightarrow>
          (if renderableType (format ctxt) = OpenGLES
           then CheckCapabilities_result tk ctxt
                  (LOG_ONCE Once_ProfileES ''OpenGL Profile: OpenGLES.'' w)
           else (Inr no_capabilities, LOG_ONCE Once_ProfileNone ''OpenGL Profile: None.'' w))
      | CoreProfile \<Rightarrow>
          CheckCapabilities_result tk ctxt
            (LOG_ONCE Once_ProfileCore ''OpenGL Profile: Core.'' w)
      | CompatibilityProfile \<Rightarrow>
          CheckCapabilities_result tk ctxt
            (LOG_ONCE Once_ProfileCompatibility ''OpenGL Profile: Compatibility.'' w))"

text \<open>Lines 91 to 126: the context, the three features, the test program.\<close>

definition CheckCapabilities_context ::
  "toolkit \<Rightarrow> QOpenGLContext option \<Rightarrow> world \<Rightarrow> (fault + Capabilities) \<times> world" where
  "CheckCapabilities_context tk ctx w =
     (case ctx of
        None \<Rightarrow>
          (Inr no_capabilities,
           LOG_ONCE Once_NoContext ''OpenGL: Could not create widget in a window.'' w)
      | Some ctxt \<Rightarrow>
          if \<not> isValid ctxt
          then (Inr no_capabilities,
                LOG_ONCE Once_NoContext ''OpenGL: Could not create widget in a window.'' w)
          else if \<not> hasNPOTTextures ctxt
          then (Inr no_capabilities,
                LOG_ONCE Once_NPOT ''OpenGL: NPOT textures not supported.'' w)
          else if \<not> hasFramebuffers ctxt
          then (Inr no_capabilities,
                LOG_ONCE Once_Framebuffers ''OpenGL: Framebuffers not supported.'' w)
          else if \<not> hasShaders ctxt
          then (Inr no_capabilities,
                LOG_ONCE Once_Shaders ''OpenGL: Shaders not supported.'' w)
          else if \<not> isLinked ctxt
          then (Inr no_capabilities,
                LOG_ONCE Once_Link ''OpenGL: Could not link simple shader.'' w)
          else CheckCapabilities_profile tk ctxt w)"

text \<open>
  Lines 81 to 90: the tester widget between \<^verbatim>\<open>CrashCheckStart()\<close> and
  \<^verbatim>\<open>CrashCheckFinish()\<close>. The three calls are consecutive statements: no handler and no
  scope guard surrounds \<^verbatim>\<open>grabFramebuffer()\<close>, so when it does not return, neither
  \<^verbatim>\<open>CrashCheckFinish()\<close> nor anything after it runs. Lines 88 to 90 give the tester's
  window an id when it has none; what \<^verbatim>\<open>tester.context()\<close> then is comes with the outcome
  of the call.
\<close>

definition CheckCapabilities_tester ::
  "integration \<Rightarrow> toolkit \<Rightarrow> QSurfaceFormat \<Rightarrow> world \<Rightarrow> (fault + Capabilities) \<times> world" where
  "CheckCapabilities_tester app tk fmt w =
     (let w1 = CrashCheckStart app w
      in case grabFramebuffer tk fmt of
           GrabTerminates \<Rightarrow> (Inl ProcessTerminated, w1)
         | GrabThrows \<Rightarrow> (Inl ExceptionPropagated, w1)
         | GrabReturns ctx \<Rightarrow> CheckCapabilities_context tk ctx (CrashCheckFinish app w1))"

definition CheckCapabilities ::
  "integration \<Rightarrow> toolkit \<Rightarrow> QWidget option \<Rightarrow> world \<Rightarrow> (fault + Capabilities) \<times> world" where
  "CheckCapabilities app tk widget w =
     (if ForceDisabled w
      then (Inr no_capabilities, LOG_ONCE Once_ForceDisabled ''OpenGL: Force-disabled.'' w)
      else (let w0 = init_BugListInited tk w
            in case widget of
                 Some wd \<Rightarrow>
                   (let wd' = (if \<not> windowHandle wd then createWinId wd else wd)
                    in if \<not> windowHandle wd'
                       then (Inr no_capabilities,
                             LOG ''OpenGL: Could not create window for widget.'' w0)
                       else if \<not> supportsOpenGL wd'
                       then (Inr no_capabilities,
                             LOG_ONCE Once_NotSupportedForWindow
                               ''OpenGL: Not supported for window.'' w0)
                       else CheckCapabilities_tester app tk
                              ((windowFormat wd')\<lparr>alphaBufferSize := 8\<rparr>) w0)
               | None \<Rightarrow>
                   CheckCapabilities_tester app tk
                     (default_QSurfaceFormat\<lparr>alphaBufferSize := 8\<rparr>) w0))"

subsection \<open>Conditions used in the statements\<close>

text \<open>
  Lines 62 to 80 pass when there is no widget, or when the widget's window has a handle
  (at once or after \<^verbatim>\<open>createWinId()\<close>) that supports OpenGL; \<open>tester_format\<close> is the
  format the tester widget is then given.
\<close>

definition window_usable :: "QWidget option \<Rightarrow> bool" where
  "window_usable widget =
     (case widget of
        None \<Rightarrow> True
      | Some wd \<Rightarrow> (windowHandle wd \<or> windowHandle_created wd) \<and> supportsOpenGL wd)"

definition tester_format :: "QWidget option \<Rightarrow> QSurfaceFormat" where
  "tester_format widget =
     (case widget of None \<Rightarrow> default_QSurfaceFormat | Some wd \<Rightarrow> windowFormat wd)
       \<lparr>alphaBufferSize := 8\<rparr>"

subsection \<open>Concrete inputs\<close>

definition host_app :: integration where
  "host_app =
     \<lparr>openglCheckFilePath = ''opengl_crash_check'', angleBackendFilePath = ''angle_backend''\<rparr>"

text \<open>A first start: no file, every file operation succeeds, nothing logged.\<close>

definition fresh_install :: world where
  "fresh_install =
     \<lparr>files = Map.empty, can_write = (\<lambda>_. True), can_read = (\<lambda>_. True),
      can_remove = (\<lambda>_. True), environment = Map.empty, ForceDisabled = False,
      ResolvedANGLE = Auto, statics = {}, log_lines = []\<rparr>"

definition with_file :: "string \<Rightarrow> string \<Rightarrow> world \<Rightarrow> world" where
  "with_file path content w = w\<lparr>files := (files w)(path \<mapsto> content)\<rparr>"

text \<open>A context with every feature, a core profile and eight bits of alpha.\<close>

definition full_context :: QOpenGLContext where
  "full_context =
     \<lparr>isValid = True, hasNPOTTextures = True, hasFramebuffers = True, hasShaders = True,
      isLinked = True,
      format = \<lparr>alphaBufferSize = 8, profile = CoreProfile,
                renderableType = Renderable_OpenGL, majorVersion = 3\<rparr>,
      GL_RENDERER = Some ''ANGLE'', GL_VENDOR = None, GL_VERSION = Some ''3.3'',
      extensions = [''GL_a'', ''GL_b''], egldisplay = True,
      eglQueryString = Some ''EGL_a EGL_b''\<rparr>"

definition toolkit_of :: "grab_outcome \<Rightarrow> toolkit" where
  "toolkit_of g =
     \<lparr>bug_list_exists = False, grabFramebuffer = (\<lambda>_. g), platformNativeInterface = True\<rparr>"

section \<open>Properties\<close>

subsection \<open>What each step leaves alone\<close>

lemma files_LOG [simp]: "files (LOG x w) = files w"
  by (simp add: LOG_def)

lemma files_LOG_ONCE [simp]: "files (LOG_ONCE site x w) = files w"
  by (simp add: LOG_ONCE_def)

lemma files_qputenv [simp]: "files (qputenv name val w) = files w"
  by (simp add: qputenv_def)

lemma files_init_BugListInited [simp]: "files (init_BugListInited tk w) = files w"
  by (simp add: init_BugListInited_def Let_def)

lemma can_write_init_BugListInited [simp]:
  "can_write (init_BugListInited tk w) = can_write w"
  by (simp add: init_BugListInited_def Let_def qputenv_def LOG_def)

lemma can_remove_init_BugListInited [simp]:
  "can_remove (init_BugListInited tk w) = can_remove w"
  by (simp add: init_BugListInited_def Let_def qputenv_def LOG_def)

lemma files_init_extensionsLogged [simp]:
  "files (snd (init_extensionsLogged tk ctxt w)) = files w"
  by (simp add: init_extensionsLogged_def Let_def split: sum.split)

lemma files_CheckCapabilities_result [simp]:
  "files (snd (CheckCapabilities_result tk ctxt w)) = files w"
proof -
  obtain r w' where init: "init_extensionsLogged tk ctxt w = (r, w')"
    by (cases "init_extensionsLogged tk ctxt w")
  then have "files w' = files w"
    using files_init_extensionsLogged [of tk ctxt w] by simp
  with init show ?thesis
    by (cases r) (simp_all add: CheckCapabilities_result_def Let_def)
qed

lemma files_CheckCapabilities_profile [simp]:
  "files (snd (CheckCapabilities_profile tk ctxt w)) = files w"
  by (simp add: CheckCapabilities_profile_def split: OpenGLContextProfile.split)

lemma files_CheckCapabilities_context [simp]:
  "files (snd (CheckCapabilities_context tk ctx w)) = files w"
  by (simp add: CheckCapabilities_context_def split: option.split)

lemma CheckCapabilities_reaches_tester:
  assumes "\<not> ForceDisabled w" and "window_usable widget"
  shows "CheckCapabilities app tk widget w =
         CheckCapabilities_tester app tk (tester_format widget) (init_BugListInited tk w)"
proof (cases widget)
  case None
  with assms show ?thesis
    by (simp add: CheckCapabilities_def tester_format_def)
next
  case (Some wd)
  with assms have "windowHandle wd \<or> windowHandle_created wd" and "supportsOpenGL wd"
    by (simp_all add: window_usable_def)
  with assms Some show ?thesis
    by (auto simp add: CheckCapabilities_def tester_format_def createWinId_def Let_def)
qed

lemma files_CrashCheckStart:
  "files (CrashCheckStart app w) =
     (if can_write w (openglCheckFilePath app)
      then (files w)(openglCheckFilePath app \<mapsto> ''1'') else files w)"
  by (simp add: CrashCheckStart_def open_WriteOnly_def write_bytes_def)

lemma can_remove_CrashCheckStart [simp]: "can_remove (CrashCheckStart app w) = can_remove w"
  by (simp add: CrashCheckStart_def open_WriteOnly_def write_bytes_def)

lemma files_CrashCheckFinish:
  "files (CrashCheckFinish app w) =
     (if can_remove w (openglCheckFilePath app)
      then (files w)(openglCheckFilePath app := None) else files w)"
  by (auto simp add: CrashCheckFinish_def QFile_remove_def)

lemma CrashCheckFinish_absent:
  "files w (openglCheckFilePath app) = None \<Longrightarrow> CrashCheckFinish app w = w"
  by (simp add: CrashCheckFinish_def QFile_remove_def)

lemma CrashCheck_round:
  assumes "files w (openglCheckFilePath app) = None"
    and "can_remove w (openglCheckFilePath app)"
  shows "CrashCheckFinish app (CrashCheckStart app w) = w"
  using assms
  by (simp add: CrashCheckFinish_def QFile_remove_def CrashCheckStart_def open_WriteOnly_def
      write_bytes_def fun_upd_idem)

lemma CrashCheck_rounds:
  assumes "files w (openglCheckFilePath app) = None"
    and "can_remove w (openglCheckFilePath app)"
  shows "((CrashCheckFinish app \<circ> CrashCheckStart app) ^^ N) w = w"
  by (induction N) (simp_all add: CrashCheck_round assms)


lemma LastCrashCheckFailed_files:
  "LastCrashCheckFailed app w = (files w (openglCheckFilePath app) \<noteq> None)"
  by (simp add: LastCrashCheckFailed_def QFile_exists_def)

lemma files_fresh_process [simp]: "files (fresh_process env w) = files w"
  by (simp add: fresh_process_def)

lemma can_write_fresh_process [simp]: "can_write (fresh_process env w) = can_write w"
  by (simp add: fresh_process_def)

lemma can_read_fresh_process [simp]: "can_read (fresh_process env w) = can_read w"
  by (simp add: fresh_process_def)

lemma can_remove_fresh_process [simp]: "can_remove (fresh_process env w) = can_remove w"
  by (simp add: fresh_process_def)

lemma files_CheckCapabilities_tester_returns:
  assumes "grabFramebuffer tk fmt = GrabReturns ctx"
  shows "files (snd (CheckCapabilities_tester app tk fmt w)) =
         files (CrashCheckFinish app (CrashCheckStart app w))"
  using assms by (simp add: CheckCapabilities_tester_def)

lemma sentinel_after_round:
  "can_remove w (openglCheckFilePath app) \<Longrightarrow>
   files (CrashCheckFinish app (CrashCheckStart app w)) (openglCheckFilePath app) = None"
  by (simp add: files_CrashCheckFinish)

subsection \<open>The crash check across runs\<close>

text \<open>
  Claim C5. Starting without the check file, any number \<open>N\<close> of rounds
  \<^verbatim>\<open>CrashCheckStart(); CrashCheckFinish();\<close> gives back the state it started from, so the
  file is absent and \<^verbatim>\<open>LastCrashCheckFailed()\<close> is false (the file can be removed).
  \<^verbatim>\<open>CrashCheckStart()\<close> replaces whatever the file held by the byte \<^verbatim>\<open>1\<close> (the file can
  be opened for writing). \<^verbatim>\<open>CrashCheckFinish()\<close> changes nothing when the file is absent,
  and calling it twice is the same as calling it once.
\<close>

theorem CrashCheck_begin_end_repeated:
  "(files w (openglCheckFilePath app) = None \<and> can_remove w (openglCheckFilePath app) \<longrightarrow>
      ((CrashCheckFinish app \<circ> CrashCheckStart app) ^^ N) w = w
      \<and> \<not> LastCrashCheckFailed app (((CrashCheckFinish app \<circ> CrashCheckStart app) ^^ N) w))
   \<and> (can_write w (openglCheckFilePath app) \<longrightarrow>
        files (CrashCheckStart app w) (openglCheckFilePath app) = Some ''1'')
   \<and> (files w (openglCheckFilePath app) = None \<longrightarrow> CrashCheckFinish app w = w)
   \<and> CrashCheckFinish app (CrashCheckFinish app w) = CrashCheckFinish app w"
proof (intro conjI impI)
  assume absent: "files w (openglCheckFilePath app) = None \<and> can_remove w (openglCheckFilePath app)"
  then show rounds: "((CrashCheckFinish app \<circ> CrashCheckStart app) ^^ N) w = w"
    by (simp add: CrashCheck_rounds)
  from absent show
    "\<not> LastCrashCheckFailed app (((CrashCheckFinish app \<circ> CrashCheckStart app) ^^ N) w)"
    by (simp add: rounds LastCrashCheckFailed_files)
next
  assume "can_write w (openglCheckFilePath app)"
  then show "files (CrashCheckStart app w) (openglCheckFilePath app) = Some ''1''"
    by (simp add: files_CrashCheckStart)
next
  assume "files w (openglCheckFilePath app) = None"
  then show "CrashCheckFinish app w = w"
    by (rule CrashCheckFinish_absent)
next
  show "CrashCheckFinish app (CrashCheckFinish app w) = CrashCheckFinish app w"
    by (simp add: CrashCheckFinish_def QFile_remove_def)
qed

theorem CrashCheck_begin_end_repeated_witness:
  "files fresh_install (openglCheckFilePath host_app) = None
   \<and> can_remove fresh_install (openglCheckFilePath host_app)
   \<and> ((CrashCheckFinish host_app \<circ> CrashCheckStart host_app) ^^ 3) fresh_install = fresh_install
   \<and> \<not> LastCrashCheckFailed host_app
         (((CrashCheckFinish host_app \<circ> CrashCheckStart host_app) ^^ 3) fresh_install)
   \<and> files (with_file ''opengl_crash_check'' ''stale'' fresh_install)
         (openglCheckFilePath host_app) = Some ''stale''
   \<and> can_write (with_file ''opengl_crash_check'' ''stale'' fresh_install)
         (openglCheckFilePath host_app)
   \<and> files (CrashCheckStart host_app (with_file ''opengl_crash_check'' ''stale'' fresh_install))
         (openglCheckFilePath host_app) = Some ''1''
   \<and> CrashCheckFinish host_app fresh_install = fresh_install"
proof -
  have absent: "files fresh_install (openglCheckFilePath host_app) = None"
    by (simp add: fresh_install_def)
  have removable: "can_remove fresh_install (openglCheckFilePath host_app)"
    by (simp add: fresh_install_def)
  have stale: "files (with_file ''opengl_crash_check'' ''stale'' fresh_install)
                 (openglCheckFilePath host_app) = Some ''stale''"
    by (simp add: with_file_def host_app_def)
  have writable: "can_write (with_file ''opengl_crash_check'' ''stale'' fresh_install)
                    (openglCheckFilePath host_app)"
    by (simp add: with_file_def fresh_install_def)
  from absent removable writable stale
    CrashCheck_begin_end_repeated [of fresh_install host_app 3]
    CrashCheck_begin_end_repeated
      [of "with_file ''opengl_crash_check'' ''stale'' fresh_install" host_app 0]
  show ?thesis by blast
qed

text \<open>
  Claim C2. \<^verbatim>\<open>CrashCheckStart()\<close> runs and the process ends before
  \<^verbatim>\<open>CrashCheckFinish()\<close>: the next process finds \<^verbatim>\<open>LastCrashCheckFailed()\<close> true. After
  it has run \<^verbatim>\<open>CrashCheckStart()\<close> and \<^verbatim>\<open>CrashCheckFinish()\<close>, directly or through a
  call of \<^verbatim>\<open>CheckCapabilities(nullptr)\<close> whose \<^verbatim>\<open>grabFramebuffer()\<close> returns, the answer is
  false again. The file can be opened for writing and removed.
\<close>

theorem crash_detected_by_next_run:
  assumes "can_write w (openglCheckFilePath app)"
    and "can_remove w (openglCheckFilePath app)"
  shows "LastCrashCheckFailed app (fresh_process env (CrashCheckStart app w))
         \<and> \<not> LastCrashCheckFailed app
               (CrashCheckFinish app
                 (CrashCheckStart app (fresh_process env (CrashCheckStart app w))))
         \<and> (grabFramebuffer tk (tester_format None) = GrabReturns ctx \<longrightarrow>
              \<not> LastCrashCheckFailed app
                  (snd (CheckCapabilities app tk None
                         (fresh_process env (CrashCheckStart app w)))))"
proof (intro conjI impI)
  show "LastCrashCheckFailed app (fresh_process env (CrashCheckStart app w))"
    using assms by (simp add: LastCrashCheckFailed_files files_CrashCheckStart)
next
  have "can_remove (CrashCheckStart app (fresh_process env (CrashCheckStart app w)))
          (openglCheckFilePath app)"
    using assms by simp
  then show "\<not> LastCrashCheckFailed app
               (CrashCheckFinish app
                 (CrashCheckStart app (fresh_process env (CrashCheckStart app w))))"
    by (simp add: LastCrashCheckFailed_files files_CrashCheckFinish)
next
  let ?w1 = "fresh_process env (CrashCheckStart app w)"
  assume grab: "grabFramebuffer tk (tester_format None) = GrabReturns ctx"
  have enabled: "\<not> ForceDisabled ?w1"
    by (simp add: fresh_process_def)
  have usable: "window_usable None"
    by (simp add: window_usable_def)
  have removable: "can_remove (init_BugListInited tk ?w1) (openglCheckFilePath app)"
    using assms by simp
  have "files (snd (CheckCapabilities app tk None ?w1)) (openglCheckFilePath app) = None"
    by (simp only: CheckCapabilities_reaches_tester [OF enabled usable]
        files_CheckCapabilities_tester_returns [OF grab] sentinel_after_round [OF removable])
  then show "\<not> LastCrashCheckFailed app (snd (CheckCapabilities app tk None ?w1))"
    by (simp add: LastCrashCheckFailed_files)
qed

theorem crash_detected_by_next_run_witness:
  "can_write fresh_install (openglCheckFilePath host_app)
   \<and> can_remove fresh_install (openglCheckFilePath host_app)
   \<and> grabFramebuffer (toolkit_of (GrabReturns (Some full_context))) (tester_format None)
       = GrabReturns (Some full_context)
   \<and> LastCrashCheckFailed host_app
         (fresh_process Map.empty (CrashCheckStart host_app fresh_install))
   \<and> \<not> LastCrashCheckFailed host_app
         (CrashCheckFinish host_app
           (CrashCheckStart host_app
             (fresh_process Map.empty (CrashCheckStart host_app fresh_install))))
   \<and> \<not> LastCrashCheckFailed host_app
         (snd (CheckCapabilities host_app (toolkit_of (GrabReturns (Some full_context))) None
                (fresh_process Map.empty (CrashCheckStart host_app fresh_install))))"
proof -
  have writable: "can_write fresh_install (openglCheckFilePath host_app)"
    by (simp add: fresh_install_def)
  have removable: "can_remove fresh_install (openglCheckFilePath host_app)"
    by (simp add: fresh_install_def)
  have grab: "grabFramebuffer (toolkit_of (GrabReturns (Some full_context))) (tester_format None)
              = GrabReturns (Some full_context)"
    by (simp add: toolkit_of_def)
  from writable removable grab
    crash_detected_by_next_run [OF writable removable, of "Map.empty"
      "toolkit_of (GrabReturns (Some full_context))" "Some full_context"]
  show ?thesis by blast
qed

subsection \<open>The result of each stage\<close>

lemma fst_init_extensionsLogged:
  "fst (init_extensionsLogged tk ctxt w) =
     (if extensionsLogged \<in> statics w \<or> platformNativeInterface tk then Inr ()
      else Inl (AssertionFailed ''native != nullptr''))"
  by (simp add: init_extensionsLogged_def EGLExtensions_def Let_def)

lemma fst_CheckCapabilities_result:
  "fst (CheckCapabilities_result tk ctxt w) =
     (case fst (init_extensionsLogged tk ctxt w) of
        Inl f \<Rightarrow> Inl f
      | Inr _ \<Rightarrow> Inr \<lparr>supported = True,
                     transparency = (alphaBufferSize (format ctxt) \<ge> 8)\<rparr>)"
proof -
  obtain r w' where init: "init_extensionsLogged tk ctxt w = (r, w')"
    by (cases "init_extensionsLogged tk ctxt w")
  then show ?thesis
    by (cases r) (simp_all add: CheckCapabilities_result_def Let_def)
qed

lemma CheckCapabilities_result_shape:
  "fst (CheckCapabilities_result tk ctxt w) = Inr caps \<Longrightarrow> supported caps"
  by (auto simp add: fst_CheckCapabilities_result split: sum.splits)

lemma CheckCapabilities_profile_shape:
  "fst (CheckCapabilities_profile tk ctxt w) = Inr caps \<Longrightarrow>
   caps = no_capabilities \<or> supported caps"
  by (auto simp add: CheckCapabilities_profile_def
      split: OpenGLContextProfile.splits if_splits dest: CheckCapabilities_result_shape)

lemma CheckCapabilities_context_shape:
  "fst (CheckCapabilities_context tk ctx w) = Inr caps \<Longrightarrow>
   caps = no_capabilities \<or> supported caps"
  by (auto simp add: CheckCapabilities_context_def
      split: option.splits if_splits dest: CheckCapabilities_profile_shape)

lemma CheckCapabilities_tester_shape:
  "fst (CheckCapabilities_tester app tk fmt w) = Inr caps \<Longrightarrow>
   caps = no_capabilities \<or> supported caps"
  by (auto simp add: CheckCapabilities_tester_def Let_def
      split: grab_outcome.splits dest: CheckCapabilities_context_shape)

lemma CheckCapabilities_shape:
  "fst (CheckCapabilities app tk widget w) = Inr caps \<Longrightarrow>
   caps = no_capabilities \<or> supported caps"
  by (auto simp add: CheckCapabilities_def Let_def
      split: option.splits if_splits dest: CheckCapabilities_tester_shape)

lemma CheckCapabilities_context_missing_feature:
  assumes "isValid ctxt"
    and "\<not> hasNPOTTextures ctxt \<or> \<not> hasFramebuffers ctxt \<or> \<not> hasShaders ctxt"
  shows "fst (CheckCapabilities_context tk (Some ctxt) w) = Inr no_capabilities"
  using assms by (auto simp add: CheckCapabilities_context_def)

lemma fst_CheckCapabilities_tester_returns:
  assumes "grabFramebuffer tk fmt = GrabReturns ctx"
  shows "fst (CheckCapabilities_tester app tk fmt w) =
         fst (CheckCapabilities_context tk ctx (CrashCheckFinish app (CrashCheckStart app w)))"
  using assms by (simp add: CheckCapabilities_tester_def)

lemma CheckCapabilities_tester_throws:
  assumes "grabFramebuffer tk fmt = GrabThrows"
  shows "CheckCapabilities_tester app tk fmt w = (Inl ExceptionPropagated, CrashCheckStart app w)"
  using assms by (simp add: CheckCapabilities_tester_def)

lemma CheckCapabilities_tester_terminates:
  assumes "grabFramebuffer tk fmt = GrabTerminates"
  shows "CheckCapabilities_tester app tk fmt w = (Inl ProcessTerminated, CrashCheckStart app w)"
  using assms by (simp add: CheckCapabilities_tester_def)

lemma CheckCapabilities_ForceDisabled:
  "ForceDisabled w \<Longrightarrow>
   CheckCapabilities app tk widget w =
     (Inr no_capabilities, LOG_ONCE Once_ForceDisabled ''OpenGL: Force-disabled.'' w)"
  by (simp add: CheckCapabilities_def)

subsection \<open>CheckCapabilities\<close>

text \<open>
  Claim C3. After \<^verbatim>\<open>ForceDisable(true)\<close>, \<^verbatim>\<open>CheckCapabilities\<close> returns the record with
  \<^verbatim>\<open>supported\<close> false, whatever the widget and the toolkit, and \<^verbatim>\<open>CrashCheckStart()\<close> is
  not run: every file, the check file among them, and the environment are as before.
\<close>

theorem ForceDisabled_skips_probe:
  "fst (CheckCapabilities app tk widget (ForceDisable True w))
     = Inr \<lparr>supported = False, transparency = False\<rparr>
   \<and> files (snd (CheckCapabilities app tk widget (ForceDisable True w))) = files w
   \<and> environment (snd (CheckCapabilities app tk widget (ForceDisable True w))) = environment w
   \<and> LastCrashCheckFailed app (snd (CheckCapabilities app tk widget (ForceDisable True w)))
       = LastCrashCheckFailed app w"
proof -
  have "ForceDisabled (ForceDisable True w)"
    by (simp add: ForceDisable_def)
  then have "CheckCapabilities app tk widget (ForceDisable True w) =
      (Inr no_capabilities,
       LOG_ONCE Once_ForceDisabled ''OpenGL: Force-disabled.'' (ForceDisable True w))"
    by (rule CheckCapabilities_ForceDisabled)
  then show ?thesis
    by (simp add: no_capabilities_def LastCrashCheckFailed_files ForceDisable_def
        LOG_ONCE_def LOG_def)
qed

theorem ForceDisabled_skips_probe_witness:
  "fst (CheckCapabilities host_app (toolkit_of (GrabReturns (Some full_context))) None
          (ForceDisable True fresh_install))
     = Inr \<lparr>supported = False, transparency = False\<rparr>
   \<and> \<not> LastCrashCheckFailed host_app
         (snd (CheckCapabilities host_app (toolkit_of (GrabReturns (Some full_context))) None
                (ForceDisable True fresh_install)))
   \<and> LastCrashCheckFailed host_app (CrashCheckStart host_app (ForceDisable True fresh_install))"
proof -
  have absent: "\<not> LastCrashCheckFailed host_app fresh_install"
    by (simp add: LastCrashCheckFailed_files fresh_install_def)
  have started:
    "LastCrashCheckFailed host_app (CrashCheckStart host_app (ForceDisable True fresh_install))"
    by (simp add: LastCrashCheckFailed_files files_CrashCheckStart ForceDisable_def
        fresh_install_def)
  from absent started
    ForceDisabled_skips_probe
      [of host_app "toolkit_of (GrabReturns (Some full_context))" None fresh_install]
  show ?thesis by simp
qed

text \<open>
  Claim C1, as stated: \<^verbatim>\<open>CrashCheckFinish()\<close> also runs when \<^verbatim>\<open>grabFramebuffer()\<close> leaves
  by an exception. It does not: on a first start where every file operation succeeds, the
  exception passes through \<^verbatim>\<open>CheckCapabilities\<close> and the check file written by
  \<^verbatim>\<open>CrashCheckStart()\<close> is still there, although \<^verbatim>\<open>CrashCheckFinish()\<close> would have removed
  it.
\<close>

theorem CrashCheckFinish_skipped_on_exception:
  "\<not> ForceDisabled fresh_install
   \<and> grabFramebuffer (toolkit_of GrabThrows) (tester_format None) = GrabThrows
   \<and> fst (CheckCapabilities host_app (toolkit_of GrabThrows) None fresh_install)
       = Inl ExceptionPropagated
   \<and> LastCrashCheckFailed host_app
         (snd (CheckCapabilities host_app (toolkit_of GrabThrows) None fresh_install))
   \<and> \<not> LastCrashCheckFailed host_app
         (CrashCheckFinish host_app
           (snd (CheckCapabilities host_app (toolkit_of GrabThrows) None fresh_install)))"
proof -
  have enabled: "\<not> ForceDisabled fresh_install"
    by (simp add: fresh_install_def)
  have grab: "grabFramebuffer (toolkit_of GrabThrows) (tester_format None) = GrabThrows"
    by (simp add: toolkit_of_def)
  have usable: "window_usable None"
    by (simp add: window_usable_def)
  have run: "CheckCapabilities host_app (toolkit_of GrabThrows) None fresh_install =
      (Inl ExceptionPropagated,
       CrashCheckStart host_app (init_BugListInited (toolkit_of GrabThrows) fresh_install))"
    by (simp only: CheckCapabilities_reaches_tester [OF enabled usable]
        CheckCapabilities_tester_throws [OF grab])
  have "can_write fresh_install (openglCheckFilePath host_app)"
    and "can_remove fresh_install (openglCheckFilePath host_app)"
    by (simp_all add: fresh_install_def)
  then show ?thesis
    using enabled grab
    by (simp add: run LastCrashCheckFailed_files files_CrashCheckStart files_CrashCheckFinish)
qed

text \<open>
  Claim C1, amended. In a call that reaches the tester widget, \<^verbatim>\<open>CrashCheckFinish()\<close> runs
  whenever \<^verbatim>\<open>grabFramebuffer()\<close> returns, with a context or without one: the check file is
  absent afterwards (the file can be removed). The call is an ordinary statement after
  \<^verbatim>\<open>grabFramebuffer()\<close>, not a guaranteed release: when \<^verbatim>\<open>grabFramebuffer()\<close> leaves by an
  exception, the exception leaves \<^verbatim>\<open>CheckCapabilities\<close> too and the check file stays (the
  file could be written).
\<close>

theorem CrashCheckFinish_when_grab_returns:
  assumes "\<not> ForceDisabled w" and "window_usable widget"
  shows "(grabFramebuffer tk (tester_format widget) = GrabReturns ctx
          \<and> can_remove w (openglCheckFilePath app) \<longrightarrow>
            \<not> LastCrashCheckFailed app (snd (CheckCapabilities app tk widget w)))
         \<and> (grabFramebuffer tk (tester_format widget) = GrabThrows
            \<and> can_write w (openglCheckFilePath app) \<longrightarrow>
              fst (CheckCapabilities app tk widget w) = Inl ExceptionPropagated
              \<and> LastCrashCheckFailed app (snd (CheckCapabilities app tk widget w)))"
proof (intro conjI impI)
  assume returns: "grabFramebuffer tk (tester_format widget) = GrabReturns ctx
    \<and> can_remove w (openglCheckFilePath app)"
  then have grab: "grabFramebuffer tk (tester_format widget) = GrabReturns ctx"
    and removable: "can_remove (init_BugListInited tk w) (openglCheckFilePath app)"
    by simp_all
  have "files (snd (CheckCapabilities app tk widget w)) (openglCheckFilePath app) = None"
    by (simp only: CheckCapabilities_reaches_tester [OF assms]
        files_CheckCapabilities_tester_returns [OF grab] sentinel_after_round [OF removable])
  then show "\<not> LastCrashCheckFailed app (snd (CheckCapabilities app tk widget w))"
    by (simp add: LastCrashCheckFailed_files)
next
  assume throws: "grabFramebuffer tk (tester_format widget) = GrabThrows
    \<and> can_write w (openglCheckFilePath app)"
  then have grab: "grabFramebuffer tk (tester_format widget) = GrabThrows"
    and writable: "can_write w (openglCheckFilePath app)"
    by simp_all
  have run: "CheckCapabilities app tk widget w =
      (Inl ExceptionPropagated, CrashCheckStart app (init_BugListInited tk w))"
    by (simp only: CheckCapabilities_reaches_tester [OF assms]
        CheckCapabilities_tester_throws [OF grab])
  show "fst (CheckCapabilities app tk widget w) = Inl ExceptionPropagated"
    by (simp add: run)
  show "LastCrashCheckFailed app (snd (CheckCapabilities app tk widget w))"
    using writable by (simp add: run LastCrashCheckFailed_files files_CrashCheckStart)
qed

theorem CrashCheckFinish_when_grab_returns_witness:
  "\<not> ForceDisabled fresh_install \<and> window_usable None
   \<and> grabFramebuffer (toolkit_of (GrabReturns None)) (tester_format None) = GrabReturns None
   \<and> can_remove fresh_install (openglCheckFilePath host_app)
   \<and> \<not> LastCrashCheckFailed host_app
         (snd (CheckCapabilities host_app (toolkit_of (GrabReturns None)) None fresh_install))
   \<and> grabFramebuffer (toolkit_of GrabThrows) (tester_format None) = GrabThrows
   \<and> can_write fresh_install (openglCheckFilePath host_app)
   \<and> LastCrashCheckFailed host_app
         (snd (CheckCapabilities host_app (toolkit_of GrabThrows) None fresh_install))"
proof -
  have enabled: "\<not> ForceDisabled fresh_install"
    by (simp add: fresh_install_def)
  have usable: "window_usable None"
    by (simp add: window_usable_def)
  have returns: "grabFramebuffer (toolkit_of (GrabReturns None)) (tester_format None)
                 = GrabReturns None"
    by (simp add: toolkit_of_def)
  have throws: "grabFramebuffer (toolkit_of GrabThrows) (tester_format None) = GrabThrows"
    by (simp add: toolkit_of_def)
  have removable: "can_remove fresh_install (openglCheckFilePath host_app)"
    by (simp add: fresh_install_def)
  have writable: "can_write fresh_install (openglCheckFilePath host_app)"
    by (simp add: fresh_install_def)
  from enabled usable returns throws removable writable
    CrashCheckFinish_when_grab_returns
      [OF enabled usable, of "toolkit_of (GrabReturns None)" None host_app]
    CrashCheckFinish_when_grab_returns
      [OF enabled usable, of "toolkit_of GrabThrows" None host_app]
  show ?thesis by blast
qed

text \<open>
  Claim C4. In a call that reaches the feature queries with a valid context, a missing
  feature (NPOT textures, framebuffers or shaders) gives the record with \<^verbatim>\<open>supported\<close>
  false, whatever \<^verbatim>\<open>isLinked()\<close> and the format of the context would have given.
\<close>

theorem missing_feature_not_supported:
  assumes "\<not> ForceDisabled w" and "window_usable widget"
    and "grabFramebuffer tk (tester_format widget) = GrabReturns (Some ctxt)"
    and "isValid ctxt"
    and "\<not> hasNPOTTextures ctxt \<or> \<not> hasFramebuffers ctxt \<or> \<not> hasShaders ctxt"
  shows "fst (CheckCapabilities app tk widget w) = Inr \<lparr>supported = False, transparency = False\<rparr>"
proof -
  have "fst (CheckCapabilities app tk widget w) =
        fst (CheckCapabilities_context tk (Some ctxt)
              (CrashCheckFinish app (CrashCheckStart app (init_BugListInited tk w))))"
    by (simp only: CheckCapabilities_reaches_tester [OF assms(1,2)]
        fst_CheckCapabilities_tester_returns [OF assms(3)])
  also have "\<dots> = Inr no_capabilities"
    using assms(4,5) by (rule CheckCapabilities_context_missing_feature)
  finally show ?thesis
    by (simp add: no_capabilities_def)
qed

theorem missing_feature_not_supported_witness:
  "\<not> ForceDisabled fresh_install \<and> window_usable None
   \<and> grabFramebuffer (toolkit_of (GrabReturns (Some (full_context\<lparr>hasShaders := False\<rparr>))))
         (tester_format None) = GrabReturns (Some (full_context\<lparr>hasShaders := False\<rparr>))
   \<and> isValid (full_context\<lparr>hasShaders := False\<rparr>)
   \<and> \<not> hasShaders (full_context\<lparr>hasShaders := False\<rparr>)
   \<and> isLinked (full_context\<lparr>hasShaders := False\<rparr>)
   \<and> profile (format (full_context\<lparr>hasShaders := False\<rparr>)) = CoreProfile
   \<and> fst (CheckCapabilities host_app
            (toolkit_of (GrabReturns (Some (full_context\<lparr>hasShaders := False\<rparr>)))) None
            fresh_install)
       = Inr \<lparr>supported = False, transparency = False\<rparr>"
proof -
  have enabled: "\<not> ForceDisabled fresh_install"
    by (simp add: fresh_install_def)
  have usable: "window_usable None"
    by (simp add: window_usable_def)
  have grab:
    "grabFramebuffer (toolkit_of (GrabReturns (Some (full_context\<lparr>hasShaders := False\<rparr>))))
       (tester_format None) = GrabReturns (Some (full_context\<lparr>hasShaders := False\<rparr>))"
    by (simp add: toolkit_of_def)
  have valid: "isValid (full_context\<lparr>hasShaders := False\<rparr>)"
    by (simp add: full_context_def)
  have missing: "\<not> hasNPOTTextures (full_context\<lparr>hasShaders := False\<rparr>)
      \<or> \<not> hasFramebuffers (full_context\<lparr>hasShaders := False\<rparr>)
      \<or> \<not> hasShaders (full_context\<lparr>hasShaders := False\<rparr>)"
    by simp
  have rest: "isLinked (full_context\<lparr>hasShaders := False\<rparr>)
      \<and> profile (format (full_context\<lparr>hasShaders := False\<rparr>)) = CoreProfile"
    by (simp add: full_context_def)
  from enabled usable grab valid rest
    missing_feature_not_supported [OF enabled usable grab valid missing, of host_app]
  show ?thesis by simp
qed

text \<open>
  Claim C10. Whenever \<^verbatim>\<open>CheckCapabilities\<close> returns a record, \<^verbatim>\<open>transparency\<close> implies
  \<^verbatim>\<open>supported\<close>, and a record that is not \<^verbatim>\<open>supported\<close> is the one with both members
  false.
\<close>

theorem transparency_only_when_supported:
  assumes "fst (CheckCapabilities app tk widget w) = Inr caps"
  shows "(transparency caps \<longrightarrow> supported caps)
         \<and> (\<not> supported caps \<longrightarrow> caps = \<lparr>supported = False, transparency = False\<rparr>)"
  using CheckCapabilities_shape [OF assms]
  by (auto simp add: no_capabilities_def)

theorem transparency_only_when_supported_witness:
  "fst (CheckCapabilities host_app (toolkit_of (GrabReturns (Some full_context))) None
          fresh_install) = Inr \<lparr>supported = True, transparency = True\<rparr>
   \<and> transparency \<lparr>supported = True, transparency = True\<rparr>
   \<and> supported \<lparr>supported = True, transparency = True\<rparr>"
proof -
  have enabled: "\<not> ForceDisabled fresh_install"
    by (simp add: fresh_install_def)
  have usable: "window_usable None"
    by (simp add: window_usable_def)
  have grab: "grabFramebuffer (toolkit_of (GrabReturns (Some full_context))) (tester_format None)
              = GrabReturns (Some full_context)"
    by (simp add: toolkit_of_def)
  have "fst (CheckCapabilities host_app (toolkit_of (GrabReturns (Some full_context))) None
          fresh_install) =
        fst (CheckCapabilities_context (toolkit_of (GrabReturns (Some full_context)))
              (Some full_context)
              (CrashCheckFinish host_app (CrashCheckStart host_app
                (init_BugListInited (toolkit_of (GrabReturns (Some full_context)))
                  fresh_install))))"
    by (simp only: CheckCapabilities_reaches_tester [OF enabled usable]
        fst_CheckCapabilities_tester_returns [OF grab])
  also have "\<dots> = Inr \<lparr>supported = True, transparency = True\<rparr>"
    by (simp add: CheckCapabilities_context_def CheckCapabilities_profile_def
        fst_CheckCapabilities_result fst_init_extensionsLogged full_context_def toolkit_of_def)
  finally have run: "fst (CheckCapabilities host_app
      (toolkit_of (GrabReturns (Some full_context))) None fresh_install)
      = Inr \<lparr>supported = True, transparency = True\<rparr>" .
  from run transparency_only_when_supported [OF run]
  show ?thesis by simp
qed

subsection \<open>The ANGLE backend preference\<close>

lemma startsWith_take:
  "length p \<le> n \<Longrightarrow> startsWith (take n bytes) p = startsWith bytes p"
  by (simp add: startsWith_def min_def)

lemma ResolvedANGLE_ConfigureANGLE_check:
  "ResolvedANGLE (ConfigureANGLE_check bytes backend angle w) =
     (if startsWith bytes backend then angle else ResolvedANGLE w)"
  by (simp add: ConfigureANGLE_check_def qputenv_def)

lemma log_lines_ConfigureANGLE_check [simp]:
  "log_lines (ConfigureANGLE_check bytes backend angle w) = log_lines w"
  by (simp add: ConfigureANGLE_check_def qputenv_def)

lemma ConfigureANGLE_check_no_match:
  "\<not> startsWith bytes backend \<Longrightarrow> ConfigureANGLE_check bytes backend angle w = w"
  by (simp add: ConfigureANGLE_check_def)

lemma ConfigureANGLE_absent:
  assumes "angleBackendFilePath app = [] \<or> files w (angleBackendFilePath app) = None
           \<or> \<not> can_read w (angleBackendFilePath app)"
  shows "ConfigureANGLE app w = qunsetenv ANGLE_PLATFORM w"
  using assms
  by (auto simp add: ConfigureANGLE_def Let_def open_ReadOnly_def qunsetenv_def)

lemma ConfigureANGLE_unknown:
  assumes "angleBackendFilePath app \<noteq> []"
    and "can_read w (angleBackendFilePath app)"
    and "files w (angleBackendFilePath app) = Some content"
    and "\<not> startsWith content ''gl''" and "\<not> startsWith content ''d3d9''"
    and "\<not> startsWith content ''d3d11''" and "\<not> startsWith content ''d3d11on12''"
  shows "ConfigureANGLE app w =
     (if ResolvedANGLE w = Auto
      then LOG (''ANGLE Warning: Unknown backend: '' @ take 32 content)
             (qunsetenv ANGLE_PLATFORM w)
      else qunsetenv ANGLE_PLATFORM w)"
proof -
  have opened: "open_ReadOnly (angleBackendFilePath app) (qunsetenv ANGLE_PLATFORM w)
                = Some content"
    using assms(2,3) by (simp add: open_ReadOnly_def qunsetenv_def)
  have none: "\<not> startsWith (take 32 content) ''gl''"
    "\<not> startsWith (take 32 content) ''d3d9''"
    "\<not> startsWith (take 32 content) ''d3d11''"
    "\<not> startsWith (take 32 content) ''d3d11on12''"
    using assms(4-7) by (simp_all add: startsWith_take)
  have "ResolvedANGLE (qunsetenv ANGLE_PLATFORM w) = ResolvedANGLE w"
    by (simp add: qunsetenv_def)
  then show ?thesis
    using assms(1)
    by (simp add: ConfigureANGLE_def Let_def opened ConfigureANGLE_check_no_match none)
qed

lemma ConfigureANGLE_token:
  assumes "angleBackendFilePath app \<noteq> []"
    and "can_read w (angleBackendFilePath app)"
    and "files w (angleBackendFilePath app) = Some content"
  shows "ResolvedANGLE (ConfigureANGLE app w) =
     (if startsWith content ''d3d11on12'' then D3D11on12
      else if startsWith content ''d3d11'' then D3D11
      else if startsWith content ''d3d9'' then D3D9
      else if startsWith content ''gl'' then OpenGL
      else ResolvedANGLE w)"
proof -
  have opened: "open_ReadOnly (angleBackendFilePath app) (qunsetenv ANGLE_PLATFORM w)
                = Some content"
    using assms(2,3) by (simp add: open_ReadOnly_def qunsetenv_def)
  have "ResolvedANGLE (qunsetenv ANGLE_PLATFORM w) = ResolvedANGLE w"
    by (simp add: qunsetenv_def)
  then show ?thesis
    using assms(1)
    by (simp add: ConfigureANGLE_def Let_def opened ResolvedANGLE_ConfigureANGLE_check
        startsWith_take LOG_def)
qed

lemma files_ChangeANGLE_write:
  "can_write w path \<Longrightarrow> files (ChangeANGLE_write path backend w) = (files w)(path \<mapsto> backend)"
  by (simp add: ChangeANGLE_write_def open_WriteOnly_def write_bytes_def)

lemma can_read_ChangeANGLE_write [simp]:
  "can_read (ChangeANGLE_write path backend w) = can_read w"
  by (simp add: ChangeANGLE_write_def open_WriteOnly_def write_bytes_def LOG_def)

lemma files_QFile_remove:
  "files (QFile_remove path w) = (if can_remove w path then (files w)(path := None) else files w)"
  by (auto simp add: QFile_remove_def)

text \<open>
  Claim C6. \<^verbatim>\<open>ChangeANGLE(backend)\<close> for a backend other than \<^verbatim>\<open>Auto\<close>, then
  \<^verbatim>\<open>ConfigureANGLE()\<close> in a new process, makes \<^verbatim>\<open>CurrentANGLE()\<close> that backend; this
  includes \<^verbatim>\<open>D3D11on12\<close>, whose token begins with the token of \<^verbatim>\<open>D3D11\<close> (the path is not
  empty, the file can be opened for writing and for reading). \<^verbatim>\<open>ChangeANGLE(Auto)\<close> removes
  the file, and \<^verbatim>\<open>ConfigureANGLE()\<close> in a new process then leaves \<^verbatim>\<open>CurrentANGLE()\<close> at
  \<^verbatim>\<open>Auto\<close> (the file can be removed).
\<close>

theorem backend_round_trip:
  "(backend \<in> {OpenGL, D3D9, D3D11, D3D11on12}
      \<and> angleBackendFilePath app \<noteq> []
      \<and> can_write w (angleBackendFilePath app) \<and> can_read w (angleBackendFilePath app) \<longrightarrow>
        fst (ChangeANGLE app backend w) = Inr ()
        \<and> CurrentANGLE (ConfigureANGLE app (fresh_process env (snd (ChangeANGLE app backend w))))
            = backend)
   \<and> (can_remove w (angleBackendFilePath app) \<longrightarrow>
        fst (ChangeANGLE app Auto w) = Inr ()
        \<and> files (snd (ChangeANGLE app Auto w)) (angleBackendFilePath app) = None
        \<and> CurrentANGLE (ConfigureANGLE app (fresh_process env (snd (ChangeANGLE app Auto w))))
            = Auto)"
proof (intro conjI impI)
  assume named: "backend \<in> {OpenGL, D3D9, D3D11, D3D11on12}
      \<and> angleBackendFilePath app \<noteq> []
      \<and> can_write w (angleBackendFilePath app) \<and> can_read w (angleBackendFilePath app)"
  then show "fst (ChangeANGLE app backend w) = Inr ()"
    by auto
  let ?next = "\<lambda>token. fresh_process env (ChangeANGLE_write (angleBackendFilePath app) token w)"
  have resolved: "ResolvedANGLE (ConfigureANGLE app (?next token)) =
      (if startsWith token ''d3d11on12'' then D3D11on12
       else if startsWith token ''d3d11'' then D3D11
       else if startsWith token ''d3d9'' then D3D9
       else if startsWith token ''gl'' then OpenGL
       else Auto)" for token
  proof -
    have "files (?next token) (angleBackendFilePath app) = Some token"
      using named by (simp add: files_ChangeANGLE_write)
    moreover have "can_read (?next token) (angleBackendFilePath app)"
      using named by simp
    moreover have "ResolvedANGLE (?next token) = Auto"
      by (simp add: fresh_process_def)
    ultimately show ?thesis
      using named ConfigureANGLE_token [of app "?next token" token] by simp
  qed
  from named have "backend = OpenGL \<or> backend = D3D9 \<or> backend = D3D11 \<or> backend = D3D11on12"
    by simp
  then show "CurrentANGLE (ConfigureANGLE app (fresh_process env (snd (ChangeANGLE app backend w))))
             = backend"
    by (elim disjE) (simp_all add: CurrentANGLE_def resolved startsWith_def)
next
  show "fst (ChangeANGLE app Auto w) = Inr ()"
    by simp
next
  assume removable: "can_remove w (angleBackendFilePath app)"
  then show absent: "files (snd (ChangeANGLE app Auto w)) (angleBackendFilePath app) = None"
    by (simp add: files_QFile_remove)
  let ?next = "fresh_process env (snd (ChangeANGLE app Auto w))"
  have "files ?next (angleBackendFilePath app) = None"
    using absent by simp
  then have "ConfigureANGLE app ?next = qunsetenv ANGLE_PLATFORM ?next"
    by (simp add: ConfigureANGLE_absent)
  then show "CurrentANGLE (ConfigureANGLE app ?next) = Auto"
    by (simp add: CurrentANGLE_def qunsetenv_def fresh_process_def)
qed

theorem backend_round_trip_witness:
  "CurrentANGLE (ConfigureANGLE host_app
      (fresh_process Map.empty (snd (ChangeANGLE host_app D3D11on12 fresh_install)))) = D3D11on12
   \<and> CurrentANGLE (ConfigureANGLE host_app
      (fresh_process Map.empty (snd (ChangeANGLE host_app D3D11 fresh_install)))) = D3D11
   \<and> files (with_file ''angle_backend'' ''d3d9'' fresh_install) (angleBackendFilePath host_app)
       = Some ''d3d9''
   \<and> files (snd (ChangeANGLE host_app Auto (with_file ''angle_backend'' ''d3d9'' fresh_install)))
         (angleBackendFilePath host_app) = None
   \<and> CurrentANGLE (ConfigureANGLE host_app
      (fresh_process Map.empty
        (snd (ChangeANGLE host_app Auto (with_file ''angle_backend'' ''d3d9'' fresh_install)))))
       = Auto"
proof -
  have path: "angleBackendFilePath host_app \<noteq> []"
    by (simp add: host_app_def)
  have store: "can_write fresh_install (angleBackendFilePath host_app)"
    "can_read fresh_install (angleBackendFilePath host_app)"
    "can_remove (with_file ''angle_backend'' ''d3d9'' fresh_install)
       (angleBackendFilePath host_app)"
    by (simp_all add: fresh_install_def with_file_def)
  have present: "files (with_file ''angle_backend'' ''d3d9'' fresh_install)
      (angleBackendFilePath host_app) = Some ''d3d9''"
    by (simp add: with_file_def host_app_def)
  from path store present
    backend_round_trip [of D3D11on12 host_app fresh_install Map.empty]
    backend_round_trip [of D3D11 host_app fresh_install Map.empty]
    backend_round_trip
      [of Auto host_app "with_file ''angle_backend'' ''d3d9'' fresh_install" Map.empty]
  show ?thesis by simp
qed

text \<open>
  Claim C7, as stated: with the file absent or empty, \<^verbatim>\<open>ConfigureANGLE()\<close> leaves
  \<^verbatim>\<open>ResolvedANGLE\<close> at \<^verbatim>\<open>Auto\<close> and logs nothing, whatever earlier calls did. Two runs
  show otherwise. In a new process with an empty file, the call logs the warning about an
  unknown backend. And after a call that resolved \<^verbatim>\<open>D3D11\<close>, with the file removed since,
  a second call in the same process leaves \<^verbatim>\<open>CurrentANGLE()\<close> at \<^verbatim>\<open>D3D11\<close>.
\<close>

theorem ConfigureANGLE_empty_file_or_earlier_call:
  "files (with_file ''angle_backend'' [] fresh_install) (angleBackendFilePath host_app) = Some []
   \<and> log_lines (with_file ''angle_backend'' [] fresh_install) = []
   \<and> log_lines (ConfigureANGLE host_app (with_file ''angle_backend'' [] fresh_install))
       = [''ANGLE Warning: Unknown backend: '']
   \<and> files (snd (ChangeANGLE host_app Auto
               (ConfigureANGLE host_app (with_file ''angle_backend'' ''d3d11'' fresh_install))))
         (angleBackendFilePath host_app) = None
   \<and> CurrentANGLE (ConfigureANGLE host_app
        (snd (ChangeANGLE host_app Auto
               (ConfigureANGLE host_app (with_file ''angle_backend'' ''d3d11'' fresh_install)))))
       = D3D11"
proof -
  have path: "angleBackendFilePath host_app \<noteq> []"
    by (simp add: host_app_def)
  let ?empty = "with_file ''angle_backend'' [] fresh_install"
  have empty: "files ?empty (angleBackendFilePath host_app) = Some []"
    and readable: "can_read ?empty (angleBackendFilePath host_app)"
    and fresh: "ResolvedANGLE ?empty = Auto" and quiet: "log_lines ?empty = []"
    by (simp_all add: with_file_def host_app_def fresh_install_def)
  have warned: "log_lines (ConfigureANGLE host_app ?empty) = [''ANGLE Warning: Unknown backend: '']"
    using ConfigureANGLE_unknown [OF path readable empty] fresh quiet
    by (simp add: startsWith_def LOG_def qunsetenv_def)
  let ?first = "ConfigureANGLE host_app (with_file ''angle_backend'' ''d3d11'' fresh_install)"
  have first: "ResolvedANGLE ?first = D3D11"
    using ConfigureANGLE_token
      [OF path, of "with_file ''angle_backend'' ''d3d11'' fresh_install" "''d3d11''"]
    by (simp add: with_file_def host_app_def fresh_install_def startsWith_def)
  have kept: "can_remove ?first = can_remove (with_file ''angle_backend'' ''d3d11'' fresh_install)"
    by (simp add: ConfigureANGLE_def Let_def ConfigureANGLE_check_def qputenv_def qunsetenv_def
        LOG_def open_ReadOnly_def split: option.split)
  have "can_remove (with_file ''angle_backend'' ''d3d11'' fresh_install)
          (angleBackendFilePath host_app)"
    by (simp add: with_file_def fresh_install_def)
  then have removable: "can_remove ?first (angleBackendFilePath host_app)"
    by (simp only: kept)
  have removed: "files (snd (ChangeANGLE host_app Auto ?first)) (angleBackendFilePath host_app)
                 = None"
    using removable by (simp add: files_QFile_remove)
  then have "ConfigureANGLE host_app (snd (ChangeANGLE host_app Auto ?first)) =
             qunsetenv ANGLE_PLATFORM (snd (ChangeANGLE host_app Auto ?first))"
    by (simp add: ConfigureANGLE_absent)
  then have stale: "CurrentANGLE (ConfigureANGLE host_app (snd (ChangeANGLE host_app Auto ?first)))
                    = D3D11"
    using first by (simp add: CurrentANGLE_def qunsetenv_def QFile_remove_def)
  from empty quiet warned removed stale show ?thesis by simp
qed

text \<open>
  Claim C7, amended. Take a call of \<^verbatim>\<open>ConfigureANGLE()\<close> entered with \<^verbatim>\<open>ResolvedANGLE\<close> at
  \<^verbatim>\<open>Auto\<close>, as the first call of a process is. When the file is absent (the path is empty,
  there is no file, or it cannot be opened), \<^verbatim>\<open>CurrentANGLE()\<close> stays \<^verbatim>\<open>Auto\<close>, nothing
  is logged and the environment variable is unset. When the file is empty,
  \<^verbatim>\<open>CurrentANGLE()\<close> stays \<^verbatim>\<open>Auto\<close> and the variable is unset as well, and one warning
  about an unknown backend is logged.
\<close>

theorem ConfigureANGLE_absent_or_empty:
  assumes "ResolvedANGLE w = Auto"
  shows "(angleBackendFilePath app = [] \<or> files w (angleBackendFilePath app) = None
            \<or> \<not> can_read w (angleBackendFilePath app) \<longrightarrow>
          CurrentANGLE (ConfigureANGLE app w) = Auto
          \<and> log_lines (ConfigureANGLE app w) = log_lines w
          \<and> environment (ConfigureANGLE app w) ANGLE_PLATFORM = None)
         \<and> (angleBackendFilePath app \<noteq> [] \<and> can_read w (angleBackendFilePath app)
            \<and> files w (angleBackendFilePath app) = Some [] \<longrightarrow>
          CurrentANGLE (ConfigureANGLE app w) = Auto
          \<and> log_lines (ConfigureANGLE app w)
              = log_lines w @ [''ANGLE Warning: Unknown backend: '']
          \<and> environment (ConfigureANGLE app w) ANGLE_PLATFORM = None)"
proof (intro conjI impI)
  assume absent: "angleBackendFilePath app = [] \<or> files w (angleBackendFilePath app) = None
                  \<or> \<not> can_read w (angleBackendFilePath app)"
  have run: "ConfigureANGLE app w = qunsetenv ANGLE_PLATFORM w"
    using absent by (rule ConfigureANGLE_absent)
  show "CurrentANGLE (ConfigureANGLE app w) = Auto"
    using assms by (simp add: run CurrentANGLE_def qunsetenv_def)
  show "log_lines (ConfigureANGLE app w) = log_lines w"
    by (simp add: run qunsetenv_def)
  show "environment (ConfigureANGLE app w) ANGLE_PLATFORM = None"
    by (simp add: run qunsetenv_def)
next
  assume empty: "angleBackendFilePath app \<noteq> [] \<and> can_read w (angleBackendFilePath app)
                 \<and> files w (angleBackendFilePath app) = Some []"
  have run: "ConfigureANGLE app w =
             LOG (''ANGLE Warning: Unknown backend: '') (qunsetenv ANGLE_PLATFORM w)"
    using ConfigureANGLE_unknown [of app w "[]"] empty assms
    by (simp add: startsWith_def)
  show "CurrentANGLE (ConfigureANGLE app w) = Auto"
    using assms by (simp add: run CurrentANGLE_def qunsetenv_def LOG_def)
  show "log_lines (ConfigureANGLE app w) = log_lines w @ [''ANGLE Warning: Unknown backend: '']"
    by (simp add: run qunsetenv_def LOG_def)
  show "environment (ConfigureANGLE app w) ANGLE_PLATFORM = None"
    by (simp add: run qunsetenv_def LOG_def)
qed

theorem ConfigureANGLE_absent_or_empty_witness:
  "ResolvedANGLE fresh_install = Auto
   \<and> files fresh_install (angleBackendFilePath host_app) = None
   \<and> CurrentANGLE (ConfigureANGLE host_app fresh_install) = Auto
   \<and> log_lines (ConfigureANGLE host_app fresh_install) = []
   \<and> angleBackendFilePath host_app \<noteq> []
   \<and> can_read (with_file ''angle_backend'' [] fresh_install) (angleBackendFilePath host_app)
   \<and> files (with_file ''angle_backend'' [] fresh_install) (angleBackendFilePath host_app) = Some []
   \<and> CurrentANGLE (ConfigureANGLE host_app (with_file ''angle_backend'' [] fresh_install)) = Auto"
proof -
  have fresh: "ResolvedANGLE fresh_install = Auto"
    "ResolvedANGLE (with_file ''angle_backend'' [] fresh_install) = Auto"
    by (simp_all add: fresh_install_def with_file_def)
  have absent: "files fresh_install (angleBackendFilePath host_app) = None"
    and quiet: "log_lines fresh_install = []"
    by (simp_all add: fresh_install_def)
  have empty: "angleBackendFilePath host_app \<noteq> []"
    "can_read (with_file ''angle_backend'' [] fresh_install) (angleBackendFilePath host_app)"
    "files (with_file ''angle_backend'' [] fresh_install) (angleBackendFilePath host_app) = Some []"
    by (simp_all add: fresh_install_def with_file_def host_app_def)
  from fresh absent quiet empty
    ConfigureANGLE_absent_or_empty [OF fresh(1), of host_app]
    ConfigureANGLE_absent_or_empty [OF fresh(2), of host_app]
  show ?thesis by simp
qed

text \<open>
  Claim C8, as stated: whenever the file holds a token that begins with none of the four
  backend names, \<^verbatim>\<open>ConfigureANGLE()\<close> makes \<^verbatim>\<open>CurrentANGLE()\<close> \<^verbatim>\<open>Auto\<close> and logs one
  warning. Only a matching \<^verbatim>\<open>check\<close> assigns \<^verbatim>\<open>ResolvedANGLE\<close>, and the warning is
  guarded by the global being \<^verbatim>\<open>Auto\<close>: after a call that resolved \<^verbatim>\<open>OpenGL\<close> from the
  token \<^verbatim>\<open>gl\<close>, with \<^verbatim>\<open>vulkan\<close> written into the file since, a second call in the same
  process leaves \<^verbatim>\<open>CurrentANGLE()\<close> at \<^verbatim>\<open>OpenGL\<close> and logs nothing.
\<close>

theorem unknown_token_after_resolved_backend:
  "files (with_file ''angle_backend'' ''vulkan''
            (ConfigureANGLE host_app (with_file ''angle_backend'' ''gl'' fresh_install)))
     (angleBackendFilePath host_app) = Some ''vulkan''
   \<and> \<not> startsWith ''vulkan'' ''gl'' \<and> \<not> startsWith ''vulkan'' ''d3d9''
   \<and> \<not> startsWith ''vulkan'' ''d3d11'' \<and> \<not> startsWith ''vulkan'' ''d3d11on12''
   \<and> log_lines (with_file ''angle_backend'' ''vulkan''
        (ConfigureANGLE host_app (with_file ''angle_backend'' ''gl'' fresh_install))) = []
   \<and> CurrentANGLE (ConfigureANGLE host_app
        (with_file ''angle_backend'' ''vulkan''
          (ConfigureANGLE host_app (with_file ''angle_backend'' ''gl'' fresh_install))))
       = OpenGL
   \<and> log_lines (ConfigureANGLE host_app
        (with_file ''angle_backend'' ''vulkan''
          (ConfigureANGLE host_app (with_file ''angle_backend'' ''gl'' fresh_install))))
       = []"
proof -
  have path: "angleBackendFilePath host_app \<noteq> []"
    by (simp add: host_app_def)
  let ?start = "with_file ''angle_backend'' ''gl'' fresh_install"
  let ?first = "ConfigureANGLE host_app ?start"
  let ?second = "with_file ''angle_backend'' ''vulkan'' ?first"
  have start: "can_read ?start (angleBackendFilePath host_app)"
    "files ?start (angleBackendFilePath host_app) = Some ''gl''"
    by (simp_all add: with_file_def host_app_def fresh_install_def)
  have resolved: "ResolvedANGLE ?first = OpenGL"
    using ConfigureANGLE_token [OF path start] by (simp add: startsWith_def)
  have first: "?first =
      qputenv ANGLE_PLATFORM ''gl'' ((qunsetenv ANGLE_PLATFORM ?start)\<lparr>ResolvedANGLE := OpenGL\<rparr>)"
    using path start
    by (simp add: ConfigureANGLE_def Let_def open_ReadOnly_def qunsetenv_def
        ConfigureANGLE_check_def startsWith_def qputenv_def)
  have first_log: "log_lines ?first = []"
    by (subst first) (simp add: with_file_def qputenv_def qunsetenv_def fresh_install_def)
  have first_read: "can_read ?first (angleBackendFilePath host_app)"
    by (subst first) (simp add: with_file_def qputenv_def qunsetenv_def fresh_install_def)
  have quiet: "log_lines ?second = []"
    using first_log by (simp add: with_file_def)
  have readable: "can_read ?second (angleBackendFilePath host_app)"
    using first_read by (simp add: with_file_def)
  have token: "files ?second (angleBackendFilePath host_app) = Some ''vulkan''"
    by (simp add: with_file_def host_app_def)
  have kept: "ResolvedANGLE ?second = OpenGL"
    using resolved by (simp add: with_file_def)
  have unknown: "\<not> startsWith ''vulkan'' ''gl''" "\<not> startsWith ''vulkan'' ''d3d9''"
    "\<not> startsWith ''vulkan'' ''d3d11''" "\<not> startsWith ''vulkan'' ''d3d11on12''"
    by (simp_all add: startsWith_def)
  have run: "ConfigureANGLE host_app ?second = qunsetenv ANGLE_PLATFORM ?second"
    using ConfigureANGLE_unknown [OF path readable token unknown] kept by simp
  have current: "CurrentANGLE (ConfigureANGLE host_app ?second) = OpenGL"
    using kept by (simp add: run CurrentANGLE_def qunsetenv_def)
  have silent: "log_lines (ConfigureANGLE host_app ?second) = []"
    using quiet by (simp add: run qunsetenv_def)
  from token unknown quiet current silent show ?thesis by simp
qed

text \<open>
  Claim C8, amended. The file holds a token that begins with none of the four backend
  names: \<^verbatim>\<open>ConfigureANGLE()\<close>, entered with \<^verbatim>\<open>ResolvedANGLE\<close> at \<^verbatim>\<open>Auto\<close> as the first
  call of a process is, leaves \<^verbatim>\<open>CurrentANGLE()\<close> at \<^verbatim>\<open>Auto\<close> and adds exactly one line to
  the log, the warning with the first 32 bytes of the file.
\<close>

theorem unknown_token_warning:
  assumes "ResolvedANGLE w = Auto"
    and "angleBackendFilePath app \<noteq> []"
    and "can_read w (angleBackendFilePath app)"
    and "files w (angleBackendFilePath app) = Some content"
    and "\<forall>name \<in> set [''gl'', ''d3d9'', ''d3d11'', ''d3d11on12'']. \<not> startsWith content name"
  shows "CurrentANGLE (ConfigureANGLE app w) = Auto
         \<and> log_lines (ConfigureANGLE app w)
             = log_lines w @ [''ANGLE Warning: Unknown backend: '' @ take 32 content]"
proof -
  from assms(5) have "\<not> startsWith content ''gl''" "\<not> startsWith content ''d3d9''"
    "\<not> startsWith content ''d3d11''" "\<not> startsWith content ''d3d11on12''"
    by simp_all
  then have "ConfigureANGLE app w =
      LOG (''ANGLE Warning: Unknown backend: '' @ take 32 content) (qunsetenv ANGLE_PLATFORM w)"
    using ConfigureANGLE_unknown [OF assms(2-4)] assms(1) by simp
  then show ?thesis
    using assms(1) by (simp add: CurrentANGLE_def LOG_def qunsetenv_def)
qed

theorem unknown_token_warning_witness:
  "ResolvedANGLE (fresh_process Map.empty (with_file ''angle_backend'' ''vulkan'' fresh_install))
     = Auto
   \<and> files (fresh_process Map.empty (with_file ''angle_backend'' ''vulkan'' fresh_install))
       (angleBackendFilePath host_app) = Some ''vulkan''
   \<and> CurrentANGLE (ConfigureANGLE host_app
        (fresh_process Map.empty (with_file ''angle_backend'' ''vulkan'' fresh_install))) = Auto
   \<and> log_lines (ConfigureANGLE host_app
        (fresh_process Map.empty (with_file ''angle_backend'' ''vulkan'' fresh_install)))
       = [''ANGLE Warning: Unknown backend: vulkan'']"
proof -
  let ?w = "fresh_process Map.empty (with_file ''angle_backend'' ''vulkan'' fresh_install)"
  have fresh: "ResolvedANGLE ?w = Auto"
    by (simp add: fresh_process_def)
  have path: "angleBackendFilePath host_app \<noteq> []"
    by (simp add: host_app_def)
  have readable: "can_read ?w (angleBackendFilePath host_app)"
    by (simp add: with_file_def fresh_install_def)
  have token: "files ?w (angleBackendFilePath host_app) = Some ''vulkan''"
    by (simp add: with_file_def host_app_def)
  have unknown: "\<forall>name \<in> set [''gl'', ''d3d9'', ''d3d11'', ''d3d11on12''].
      \<not> startsWith ''vulkan'' name"
    by (simp add: startsWith_def)
  have quiet: "log_lines ?w = []"
    by (simp add: fresh_process_def with_file_def fresh_install_def)
  from fresh token quiet unknown_token_warning [OF fresh path readable token unknown]
  show ?thesis by simp
qed

subsection \<open>Faults\<close>

lemma CheckCapabilities_result_fault:
  "fst (CheckCapabilities_result tk ctxt w) = Inl f \<Longrightarrow>
   f = AssertionFailed ''native != nullptr'' \<and> \<not> platformNativeInterface tk"
  by (auto simp add: fst_CheckCapabilities_result fst_init_extensionsLogged
      split: sum.splits if_splits)

lemma CheckCapabilities_profile_fault:
  "fst (CheckCapabilities_profile tk ctxt w) = Inl f \<Longrightarrow>
   f = AssertionFailed ''native != nullptr'' \<and> \<not> platformNativeInterface tk"
  by (auto simp add: CheckCapabilities_profile_def
      split: OpenGLContextProfile.splits if_splits dest: CheckCapabilities_result_fault)

lemma CheckCapabilities_context_fault:
  "fst (CheckCapabilities_context tk ctx w) = Inl f \<Longrightarrow>
   f = AssertionFailed ''native != nullptr'' \<and> \<not> platformNativeInterface tk"
  by (auto simp add: CheckCapabilities_context_def
      split: option.splits if_splits dest: CheckCapabilities_profile_fault)

lemma CheckCapabilities_tester_fault:
  assumes "fst (CheckCapabilities_tester app tk fmt w) = Inl f"
  shows "(f = ProcessTerminated \<and> grabFramebuffer tk fmt = GrabTerminates)
         \<or> (f = ExceptionPropagated \<and> grabFramebuffer tk fmt = GrabThrows)
         \<or> (f = AssertionFailed ''native != nullptr'' \<and> \<not> platformNativeInterface tk)"
proof (cases "grabFramebuffer tk fmt")
  case (GrabReturns ctx)
  with assms have "fst (CheckCapabilities_context tk ctx
      (CrashCheckFinish app (CrashCheckStart app w))) = Inl f"
    by (simp add: CheckCapabilities_tester_def)
  then show ?thesis
    by (auto dest: CheckCapabilities_context_fault)
next
  case GrabTerminates
  with assms show ?thesis
    by (simp add: CheckCapabilities_tester_def)
next
  case GrabThrows
  with assms show ?thesis
    by (simp add: CheckCapabilities_tester_def)
qed

lemma CheckCapabilities_window_unusable:
  assumes "\<not> window_usable widget"
  shows "fst (CheckCapabilities app tk widget w) = Inr no_capabilities"
proof -
  from assms obtain wd where widget: "widget = Some wd"
    and unusable: "\<not> (windowHandle wd \<or> windowHandle_created wd) \<or> \<not> supportsOpenGL wd"
    by (cases widget) (auto simp add: window_usable_def)
  from unusable show ?thesis
    by (auto simp add: widget CheckCapabilities_def Let_def createWinId_def)
qed

lemma CheckCapabilities_context_unusable:
  assumes "case ctx of
             None \<Rightarrow> True
           | Some c \<Rightarrow> \<not> isValid c \<or> \<not> hasNPOTTextures c \<or> \<not> hasFramebuffers c
                       \<or> \<not> hasShaders c \<or> \<not> isLinked c
                       \<or> (profile (format c) = NoProfile
                           \<and> renderableType (format c) \<noteq> OpenGLES)"
  shows "fst (CheckCapabilities_context tk ctx w) = Inr no_capabilities"
  using assms
  by (auto simp add: CheckCapabilities_context_def CheckCapabilities_profile_def
      split: option.splits)

text \<open>
  Claim C9, as stated: no operation raises an unhandled fault. \<^verbatim>\<open>EGLExtensions\<close> does
  when the platform has no native interface: \<^verbatim>\<open>Assert(native != nullptr)\<close> fails. The
  first call of \<^verbatim>\<open>CheckCapabilities\<close> that passes every check lists the EGL extensions
  and ends there in the same way.
\<close>

theorem EGLExtensions_assertion_fault:
  "\<not> platformNativeInterface
        ((toolkit_of (GrabReturns (Some full_context)))\<lparr>platformNativeInterface := False\<rparr>)
   \<and> EGLExtensions
        ((toolkit_of (GrabReturns (Some full_context)))\<lparr>platformNativeInterface := False\<rparr>)
        full_context = Inl (AssertionFailed ''native != nullptr'')
   \<and> fst (CheckCapabilities host_app
        ((toolkit_of (GrabReturns (Some full_context)))\<lparr>platformNativeInterface := False\<rparr>)
        None fresh_install) = Inl (AssertionFailed ''native != nullptr'')"
proof -
  let ?tk = "(toolkit_of (GrabReturns (Some full_context)))\<lparr>platformNativeInterface := False\<rparr>"
  have enabled: "\<not> ForceDisabled fresh_install"
    by (simp add: fresh_install_def)
  have usable: "window_usable None"
    by (simp add: window_usable_def)
  have grab: "grabFramebuffer ?tk (tester_format None) = GrabReturns (Some full_context)"
    by (simp add: toolkit_of_def)
  let ?w = "CrashCheckFinish host_app (CrashCheckStart host_app
              (init_BugListInited ?tk fresh_install))"
  have "statics ?w = {BugListInited}"
    by (simp add: CrashCheckFinish_def QFile_remove_def CrashCheckStart_def open_WriteOnly_def
        write_bytes_def init_BugListInited_def toolkit_of_def fresh_install_def Let_def)
  then have uninitialised:
    "extensionsLogged \<notin> statics (LOG_ONCE Once_ProfileCore ''OpenGL Profile: Core.'' ?w)"
    by (simp add: LOG_ONCE_def LOG_def)
  have "fst (CheckCapabilities host_app ?tk None fresh_install) =
        fst (CheckCapabilities_context ?tk (Some full_context) ?w)"
    by (simp only: CheckCapabilities_reaches_tester [OF enabled usable]
        fst_CheckCapabilities_tester_returns [OF grab])
  also have "\<dots> = fst (CheckCapabilities_result ?tk full_context
                        (LOG_ONCE Once_ProfileCore ''OpenGL Profile: Core.'' ?w))"
    by (simp add: CheckCapabilities_context_def CheckCapabilities_profile_def full_context_def)
  also have "\<dots> = Inl (AssertionFailed ''native != nullptr'')"
    using uninitialised
    by (simp add: fst_CheckCapabilities_result fst_init_extensionsLogged)
  finally show ?thesis
    by (simp add: EGLExtensions_def)
qed

text \<open>
  Claim C9, amended. \<^verbatim>\<open>ChangeANGLE\<close> completes for each of the five enumerators; its
  \<^verbatim>\<open>Unexpected\<close> branch is for a value that is none of them. Every failure path of
  \<^verbatim>\<open>CheckCapabilities\<close> returns the record with \<^verbatim>\<open>supported\<close> false: when it is
  force-disabled or the widget's window is unusable, and, once \<^verbatim>\<open>grabFramebuffer()\<close> has
  returned, when there is no valid context, a feature is missing, the test program does
  not link, or the format has no profile and is not OpenGL ES. \<^verbatim>\<open>CheckCapabilities\<close> does
  not return only when \<^verbatim>\<open>grabFramebuffer()\<close> ends the process or leaves by an exception,
  or when the assertion in \<^verbatim>\<open>EGLExtensions\<close> fails.
\<close>

theorem faults_only_outside_failure_paths:
  "(backend \<in> {Auto, OpenGL, D3D9, D3D11, D3D11on12} \<longrightarrow>
      fst (ChangeANGLE app backend w) = Inr ())
   \<and> (ForceDisabled w \<or> \<not> window_usable widget \<longrightarrow>
        fst (CheckCapabilities app tk widget w) = Inr \<lparr>supported = False, transparency = False\<rparr>)
   \<and> (grabFramebuffer tk (tester_format widget) = GrabReturns ctx
        \<and> (case ctx of
              None \<Rightarrow> True
            | Some c \<Rightarrow> \<not> isValid c \<or> \<not> hasNPOTTextures c \<or> \<not> hasFramebuffers c
                        \<or> \<not> hasShaders c \<or> \<not> isLinked c
                        \<or> (profile (format c) = NoProfile
                            \<and> renderableType (format c) \<noteq> OpenGLES)) \<longrightarrow>
        fst (CheckCapabilities app tk widget w) = Inr \<lparr>supported = False, transparency = False\<rparr>)
   \<and> (fst (CheckCapabilities app tk widget w) = Inl f \<longrightarrow>
        (f = ProcessTerminated \<and> grabFramebuffer tk (tester_format widget) = GrabTerminates)
        \<or> (f = ExceptionPropagated \<and> grabFramebuffer tk (tester_format widget) = GrabThrows)
        \<or> (f = AssertionFailed ''native != nullptr'' \<and> \<not> platformNativeInterface tk))"
proof (intro conjI impI)
  assume "backend \<in> {Auto, OpenGL, D3D9, D3D11, D3D11on12}"
  then show "fst (ChangeANGLE app backend w) = Inr ()"
    by auto
next
  assume early: "ForceDisabled w \<or> \<not> window_usable widget"
  have "fst (CheckCapabilities app tk widget w) = Inr no_capabilities"
  proof (cases "ForceDisabled w")
    case True
    then show ?thesis by (simp add: CheckCapabilities_ForceDisabled)
  next
    case False
    with early show ?thesis by (simp add: CheckCapabilities_window_unusable)
  qed
  then show "fst (CheckCapabilities app tk widget w)
             = Inr \<lparr>supported = False, transparency = False\<rparr>"
    by (simp add: no_capabilities_def)
next
  assume late: "grabFramebuffer tk (tester_format widget) = GrabReturns ctx
        \<and> (case ctx of
              None \<Rightarrow> True
            | Some c \<Rightarrow> \<not> isValid c \<or> \<not> hasNPOTTextures c \<or> \<not> hasFramebuffers c
                        \<or> \<not> hasShaders c \<or> \<not> isLinked c
                        \<or> (profile (format c) = NoProfile
                            \<and> renderableType (format c) \<noteq> OpenGLES))"
  have "fst (CheckCapabilities app tk widget w) = Inr no_capabilities"
  proof (cases "ForceDisabled w \<or> \<not> window_usable widget")
    case True
    then show ?thesis
      by (auto simp add: CheckCapabilities_ForceDisabled CheckCapabilities_window_unusable)
  next
    case False
    then have reach: "\<not> ForceDisabled w" "window_usable widget"
      by simp_all
    from late have grab: "grabFramebuffer tk (tester_format widget) = GrabReturns ctx"
      by simp
    have "fst (CheckCapabilities app tk widget w) =
          fst (CheckCapabilities_context tk ctx
                (CrashCheckFinish app (CrashCheckStart app (init_BugListInited tk w))))"
      by (simp only: CheckCapabilities_reaches_tester [OF reach]
          fst_CheckCapabilities_tester_returns [OF grab])
    with late show ?thesis
      by (simp add: CheckCapabilities_context_unusable)
  qed
  then show "fst (CheckCapabilities app tk widget w)
             = Inr \<lparr>supported = False, transparency = False\<rparr>"
    by (simp add: no_capabilities_def)
next
  assume fault: "fst (CheckCapabilities app tk widget w) = Inl f"
  have enabled: "\<not> ForceDisabled w"
    using fault by (auto simp add: CheckCapabilities_ForceDisabled)
  have usable: "window_usable widget"
  proof (rule ccontr)
    assume "\<not> window_usable widget"
    then have "fst (CheckCapabilities app tk widget w) = Inr no_capabilities"
      by (rule CheckCapabilities_window_unusable)
    with fault show False by simp
  qed
  note reach = enabled usable
  from fault have "fst (CheckCapabilities_tester app tk (tester_format widget)
                         (init_BugListInited tk w)) = Inl f"
    by (simp only: CheckCapabilities_reaches_tester [OF reach])
  then show "(f = ProcessTerminated \<and> grabFramebuffer tk (tester_format widget) = GrabTerminates)
        \<or> (f = ExceptionPropagated \<and> grabFramebuffer tk (tester_format widget) = GrabThrows)
        \<or> (f = AssertionFailed ''native != nullptr'' \<and> \<not> platformNativeInterface tk)"
    by (rule CheckCapabilities_tester_fault)
qed

theorem faults_only_outside_failure_paths_witness:
  "fst (ChangeANGLE host_app D3D11on12 fresh_install) = Inr ()
   \<and> ForceDisabled (ForceDisable True fresh_install)
   \<and> fst (CheckCapabilities host_app (toolkit_of GrabThrows) None
            (ForceDisable True fresh_install))
       = Inr \<lparr>supported = False, transparency = False\<rparr>
   \<and> grabFramebuffer (toolkit_of (GrabReturns (Some (full_context\<lparr>isLinked := False\<rparr>))))
         (tester_format None) = GrabReturns (Some (full_context\<lparr>isLinked := False\<rparr>))
   \<and> \<not> isLinked (full_context\<lparr>isLinked := False\<rparr>)
   \<and> fst (CheckCapabilities host_app
            (toolkit_of (GrabReturns (Some (full_context\<lparr>isLinked := False\<rparr>)))) None
            fresh_install)
       = Inr \<lparr>supported = False, transparency = False\<rparr>
   \<and> fst (CheckCapabilities host_app (toolkit_of GrabTerminates) None fresh_install)
       = Inl ProcessTerminated"
proof -
  have named: "D3D11on12 \<in> {Auto, OpenGL, D3D9, D3D11, D3D11on12}"
    by simp
  have disabled: "ForceDisabled (ForceDisable True fresh_install)"
    by (simp add: ForceDisable_def)
  have grab:
    "grabFramebuffer (toolkit_of (GrabReturns (Some (full_context\<lparr>isLinked := False\<rparr>))))
       (tester_format None) = GrabReturns (Some (full_context\<lparr>isLinked := False\<rparr>))"
    by (simp add: toolkit_of_def)
  have unlinked: "\<not> isLinked (full_context\<lparr>isLinked := False\<rparr>)"
    by simp
  have enabled: "\<not> ForceDisabled fresh_install"
    by (simp add: fresh_install_def)
  have usable: "window_usable None"
    by (simp add: window_usable_def)
  have terminates: "grabFramebuffer (toolkit_of GrabTerminates) (tester_format None)
                    = GrabTerminates"
    by (simp add: toolkit_of_def)
  have killed: "fst (CheckCapabilities host_app (toolkit_of GrabTerminates) None fresh_install)
                = Inl ProcessTerminated"
    by (simp only: CheckCapabilities_reaches_tester [OF enabled usable]
        CheckCapabilities_tester_terminates [OF terminates] fst_conv)
  from named disabled grab unlinked killed
    faults_only_outside_failure_paths
      [of D3D11on12 host_app fresh_install None "toolkit_of GrabThrows"]
    faults_only_outside_failure_paths
      [of Auto host_app "ForceDisable True fresh_install" None "toolkit_of GrabThrows"]
    faults_only_outside_failure_paths
      [of Auto host_app fresh_install None
        "toolkit_of (GrabReturns (Some (full_context\<lparr>isLinked := False\<rparr>)))"
        "Some (full_context\<lparr>isLinked := False\<rparr>)"]
    faults_only_outside_failure_paths
      [of Auto host_app fresh_install None "toolkit_of GrabTerminates" None ProcessTerminated]
  show ?thesis by simp
qed

end
